theory Spec2Isabelle
  imports Complex_Main "HOL-Library.Word"
begin

section \<open>Tracked tasks: the runtime cache (jobmgr/tracked/task.go)\<close>

text \<open>
  Go's \<open>uint64\<close> and \<open>uint32\<close> are words; \<open>time.Time\<close> is read as a number of
  nanoseconds, the value of the clock being an argument of every operation that calls
  \<open>time.Now()\<close>.  An \<open>error\<close> value carries its message.
\<close>

type_synonym uint64 = "64 word"
type_synonym uint32 = "32 word"
type_synonym Time = int

datatype error = Error string

text \<open>The states of \<open>pb_task.TaskState\<close>, named as the generated Go code names them.\<close>

datatype TaskState =
    TaskState_UNKNOWN | TaskState_INITIALIZED | TaskState_PENDING | TaskState_READY
  | TaskState_PLACING | TaskState_PLACED | TaskState_LAUNCHING | TaskState_LAUNCHED
  | TaskState_STARTING | TaskState_RUNNING | TaskState_SUCCEEDED | TaskState_FAILED
  | TaskState_LOST | TaskState_PREEMPTING | TaskState_KILLING | TaskState_KILLED
  | TaskState_DELETED

record ChangeLog =
  Version :: uint64

text \<open>
  \<open>pb_task.RuntimeInfo\<close>, with the fields the sources read or write.  A pointer that
  may be nil is an option.
\<close>

record RuntimeInfo =
  State :: TaskState
  GoalState :: TaskState
  MesosTaskId :: "string option"
  ConfigVersion :: uint64
  DesiredConfigVersion :: uint64
  Revision :: "ChangeLog option"

text \<open>The nil-safe getters of the generated code: on a nil receiver they give the zero value.\<close>

definition GetRevision :: "RuntimeInfo option \<Rightarrow> ChangeLog option" where
  "GetRevision r = (case r of None \<Rightarrow> None | Some x \<Rightarrow> Revision x)"

definition GetVersion :: "ChangeLog option \<Rightarrow> uint64" where
  "GetVersion c = (case c of None \<Rightarrow> 0 | Some x \<Rightarrow> Version x)"

text \<open>\<open>TaskAction\<close> is a string type in the source, and so it is here.\<close>

type_synonym TaskAction = string

definition UseGoalVersionAction :: TaskAction where "UseGoalVersionAction = ''use_goal_state''"

text \<open>
  The struct \<open>task\<close>.  The mutex and the queue item mixin carry no data of the
  operations below and are left out; the job is present by its identifier.
\<close>

record task =
  job_id :: string
  task_id :: uint32
  runtime :: "RuntimeInfo option"
  lastAction :: TaskAction
  lastActionTime :: Time
  lastRuntimeUpdateTime :: Time
  killingAttempts :: int

text \<open>
  \<open>task.UpdateRuntime\<close>.  \<open>reflect.DeepEqual\<close> on two pointers compares what they
  point to, which is equality of the options.  The three tests come in the order of the
  source; the assignment \<open>t.runtime = nil\<close> of the equal-revision branch is followed,
  as in the source, by the unconditional \<open>t.runtime = runtime\<close>.
\<close>

definition UpdateRuntime :: "task \<Rightarrow> RuntimeInfo option \<Rightarrow> Time \<Rightarrow> task" where
  "UpdateRuntime t new now =
     (if runtime t = new then t
      else if GetVersion (GetRevision (runtime t)) > GetVersion (GetRevision new) then t
      else
        let t1 = (if runtime t \<noteq> None
                     \<and> GetVersion (GetRevision (runtime t)) = GetVersion (GetRevision new)
                  then t\<lparr>runtime := None\<rparr> else t);
            t2 = t1\<lparr>runtime := new\<rparr>
        in t2\<lparr>lastRuntimeUpdateTime := now\<rparr>)"

text \<open>
  The collaborators of a task that are not part of the file: the task store's answers for
  this task and the actions implemented in other files, each a function of the task that
  returns the task it leaves and its error.
\<close>

record env =
  GetTaskRuntime :: "error + RuntimeInfo"
  GetTaskConfig_KillOnPreempt :: "error + bool"
  UpdateTaskRuntime :: "task \<Rightarrow> RuntimeInfo \<Rightarrow> task"
  start :: "task \<Rightarrow> task \<times> error option"
  stop :: "task \<Rightarrow> task \<times> error option"
  initialize :: "task \<Rightarrow> task \<times> error option"
  launchRetry :: "task \<Rightarrow> task \<times> error option"
  sendLaunchInfoToResMgr :: "task \<Rightarrow> task \<times> error option"
  failureRetry :: "task \<Rightarrow> task \<times> bool \<times> error option"
  updateTime :: Time





section \<open>Batch placement (placement/plugins/batch)\<close>

text \<open>
  A Mesos resource of an offer: its name, its scalar value and, for the resource named
  \<open>ports\<close>, its ranges.  The bounds of a range are \<open>uint64\<close>.
\<close>

record ValueRange =
  Range_Begin :: uint64
  Range_End :: uint64

record Resource =
  Name :: string
  Scalar :: real
  Ranges :: "ValueRange list"

text \<open>
  \<open>batch.availablePorts\<close>: over every resource named \<open>ports\<close>, the sum over its
  ranges of \<open>end - begin + 1\<close>, in \<open>uint64\<close> arithmetic.
\<close>

definition availablePorts :: "Resource list \<Rightarrow> uint64" where
  "availablePorts resources =
     fold (\<lambda>resource ports.
             if Name resource \<noteq> ''ports'' then ports
             else fold (\<lambda>portRange ports'. ports' + (Range_End portRange - Range_Begin portRange + 1))
                    (Ranges resource) ports)
       resources 0"

text \<open>
  Modelled from the spec: the package \<open>hostmgr/scalar\<close> (the type \<open>Resources\<close> with
  \<open>FromMesosResources\<close>, \<open>FromResourceConfig\<close> and \<open>TrySubtract\<close>) is not among the
  sources.  The spec names the scalar demand (cpu, mem, disk, gpu) and accepts an
  assignment when its demand can be subtracted from the remaining resources of the host.
  The quantities are \<open>float64\<close> in Go; they are exact numbers here, so rounding is
  outside the model.
\<close>

record Resources =
  CPU :: real
  Mem :: real
  Disk :: real
  GPU :: real

definition scalar_total :: "string \<Rightarrow> Resource list \<Rightarrow> real" where
  "scalar_total n resources = sum_list (map Scalar (filter (\<lambda>r. Name r = n) resources))"

definition FromMesosResources :: "Resource list \<Rightarrow> Resources" where
  "FromMesosResources resources =
     \<lparr>CPU = scalar_total ''cpus'' resources, Mem = scalar_total ''mem'' resources,
      Disk = scalar_total ''disk'' resources, GPU = scalar_total ''gpus'' resources\<rparr>"

record ResourceConfig =
  CpuLimit :: real
  MemLimitMb :: real
  DiskLimitMb :: real
  GpuLimit :: real

definition FromResourceConfig :: "ResourceConfig option \<Rightarrow> Resources" where
  "FromResourceConfig rc =
     (case rc of
        None \<Rightarrow> \<lparr>CPU = 0, Mem = 0, Disk = 0, GPU = 0\<rparr>
      | Some c \<Rightarrow> \<lparr>CPU = CpuLimit c, Mem = MemLimitMb c, Disk = DiskLimitMb c, GPU = GpuLimit c\<rparr>)"

definition TrySubtract :: "Resources \<Rightarrow> Resources \<Rightarrow> Resources option" where
  "TrySubtract a other =
     (if CPU other \<le> CPU a \<and> Mem other \<le> Mem a \<and> Disk other \<le> Disk a \<and> GPU other \<le> GPU a
      then Some \<lparr>CPU = CPU a - CPU other, Mem = Mem a - Mem other,
                 Disk = Disk a - Disk other, GPU = GPU a - GPU other\<rparr>
      else None)"

text \<open>
  The task of the resource manager with its demand, the host of an offer, and the
  assignment that \<open>SetHost\<close> binds to a host.
\<close>

record resmgr_Task =
  Task_Name :: string
  NumPorts :: uint32
  Task_Resource :: "ResourceConfig option"

record Host =
  Hostname :: string
  Offer_Resources :: "Resource list"

record Assignment =
  Task :: resmgr_Task
  AssignedHost :: "Host option"

definition SetHost :: "Assignment \<Rightarrow> Host \<Rightarrow> Assignment" where
  "SetHost placement offer = placement\<lparr>AssignedHost := Some offer\<rparr>"

text \<open>
  The loop of \<open>batch.fillOffer\<close>, from the remaining ports and resources it has reached.
  The source binds the host in the assignment the slice points to and returns the rest of
  the slice; here the result is the pair of the assignments bound to the host, as they
  are after the call, and the slice returned.
\<close>

fun fillOffer_loop ::
  "Host \<Rightarrow> uint64 \<Rightarrow> Resources \<Rightarrow> Assignment list \<Rightarrow> Assignment list \<times> Assignment list" where
  "fillOffer_loop offer remainPorts remain [] = ([], [])"
| "fillOffer_loop offer remainPorts remain (placement # unassigned) =
     (let resmgrTask = Task placement;
          usedPorts = (ucast (NumPorts resmgrTask) :: uint64)
      in if usedPorts > remainPorts then ([], placement # unassigned)
         else
           (case TrySubtract remain (FromResourceConfig (Task_Resource resmgrTask)) of
              None \<Rightarrow> ([], placement # unassigned)
            | Some trySubtract \<Rightarrow>
                (case fillOffer_loop offer (remainPorts - usedPorts) trySubtract unassigned of
                   (placed, rest) \<Rightarrow> (SetHost placement offer # placed, rest))))"

definition fillOffer :: "Host \<Rightarrow> Assignment list \<Rightarrow> Assignment list \<times> Assignment list" where
  "fillOffer offer unassigned =
     fillOffer_loop offer (availablePorts (Offer_Resources offer))
       (FromMesosResources (Offer_Resources offer)) unassigned"

text \<open>
  \<open>batch.PlaceOnce\<close>: the hosts are filled in their order, each with what the one
  before left; the result is the assignments bound to a host and those still without.
\<close>

fun PlaceOnce :: "Assignment list \<Rightarrow> Host list \<Rightarrow> Assignment list \<times> Assignment list" where
  "PlaceOnce unassigned [] = ([], unassigned)"
| "PlaceOnce unassigned (host # hosts) =
     (case fillOffer host unassigned of
        (placed, rest) \<Rightarrow>
          (case PlaceOnce rest hosts of (placed', rest') \<Rightarrow> (placed @ placed', rest')))"

text \<open>
  The words of the spec for the placement: the demand of a list of assignments, what
  an assignment needs to fit, and what remains of a host after some assignments.
\<close>

definition ports_demand :: "Assignment list \<Rightarrow> nat" where
  "ports_demand as = sum_list (map (\<lambda>a. unat (NumPorts (Task a))) as)"

definition scalar_demand :: "Assignment list \<Rightarrow> Resources" where
  "scalar_demand as =
     \<lparr>CPU = sum_list (map (\<lambda>a. CPU (FromResourceConfig (Task_Resource (Task a)))) as),
      Mem = sum_list (map (\<lambda>a. Mem (FromResourceConfig (Task_Resource (Task a)))) as),
      Disk = sum_list (map (\<lambda>a. Disk (FromResourceConfig (Task_Resource (Task a)))) as),
      GPU = sum_list (map (\<lambda>a. GPU (FromResourceConfig (Task_Resource (Task a)))) as)\<rparr>"

definition fits :: "uint64 \<times> Resources \<Rightarrow> Assignment \<Rightarrow> bool" where
  "fits remaining a =
     (unat (NumPorts (Task a)) \<le> unat (fst remaining)
      \<and> TrySubtract (snd remaining) (FromResourceConfig (Task_Resource (Task a))) \<noteq> None)"

definition take_from :: "uint64 \<times> Resources \<Rightarrow> Assignment \<Rightarrow> uint64 \<times> Resources" where
  "take_from remaining a =
     (fst remaining - ucast (NumPorts (Task a)),
      \<lparr>CPU = CPU (snd remaining) - CPU (FromResourceConfig (Task_Resource (Task a))),
       Mem = Mem (snd remaining) - Mem (FromResourceConfig (Task_Resource (Task a))),
       Disk = Disk (snd remaining) - Disk (FromResourceConfig (Task_Resource (Task a))),
       GPU = GPU (snd remaining) - GPU (FromResourceConfig (Task_Resource (Task a)))\<rparr>)"

definition remaining_after :: "Host \<Rightarrow> Assignment list \<Rightarrow> uint64 \<times> Resources" where
  "remaining_after offer as =
     fold (\<lambda>a remaining. take_from remaining a) as
       (availablePorts (Offer_Resources offer), FromMesosResources (Offer_Resources offer))"

text \<open>
  The number of ports in the ranges of an offer, counted without a word size, and the
  offers for which \<open>availablePorts\<close> counts the same: no range ends before it begins
  and the count fits \<open>uint64\<close>.
\<close>

definition range_size :: "ValueRange \<Rightarrow> nat" where
  "range_size r = unat (Range_End r) - unat (Range_Begin r) + 1"

definition port_count :: "Resource list \<Rightarrow> nat" where
  "port_count resources =
     sum_list (map (\<lambda>resource. sum_list (map range_size (Ranges resource)))
                 (filter (\<lambda>resource. Name resource = ''ports'') resources))"

definition well_formed_ports :: "Resource list \<Rightarrow> bool" where
  "well_formed_ports resources =
     (list_all (\<lambda>resource. Name resource = ''ports'' \<longrightarrow>
                  list_all (\<lambda>r. Range_Begin r \<le> Range_End r) (Ranges resource)) resources
      \<and> port_count resources < 2 ^ 64)"

text \<open>
  The scenarios of the spec for the placement.  S1: an offer of 4 cpus, 4096 of memory and
  the ports 100 to 103, and two tasks of 2 cpus, 1024 of memory and 2 ports each.  S2: an
  offer of 8 cpus, 8192 of memory and the single port 100, and two tasks of 1 cpu, 1 of
  memory and 1 port each.
\<close>

definition S1_offer :: Host where
  "S1_offer = \<lparr>Hostname = ''host1'', Offer_Resources =
     [\<lparr>Name = ''cpus'', Scalar = 4, Ranges = []\<rparr>,
      \<lparr>Name = ''mem'', Scalar = 4096, Ranges = []\<rparr>,
      \<lparr>Name = ''ports'', Scalar = 0, Ranges = [\<lparr>Range_Begin = 100, Range_End = 103\<rparr>]\<rparr>]\<rparr>"

definition S1_task :: Assignment where
  "S1_task = \<lparr>Task = \<lparr>Task_Name = ''t'', NumPorts = 2, Task_Resource =
      Some \<lparr>CpuLimit = 2, MemLimitMb = 1024, DiskLimitMb = 0, GpuLimit = 0\<rparr>\<rparr>,
     AssignedHost = None\<rparr>"

definition S2_offer :: Host where
  "S2_offer = \<lparr>Hostname = ''host2'', Offer_Resources =
     [\<lparr>Name = ''cpus'', Scalar = 8, Ranges = []\<rparr>,
      \<lparr>Name = ''mem'', Scalar = 8192, Ranges = []\<rparr>,
      \<lparr>Name = ''ports'', Scalar = 0, Ranges = [\<lparr>Range_Begin = 100, Range_End = 100\<rparr>]\<rparr>]\<rparr>"

definition S2_task :: Assignment where
  "S2_task = \<lparr>Task = \<lparr>Task_Name = ''t'', NumPorts = 1, Task_Resource =
      Some \<lparr>CpuLimit = 1, MemLimitMb = 1, DiskLimitMb = 0, GpuLimit = 0\<rparr>\<rparr>,
     AssignedHost = None\<rparr>"

section \<open>Translation of states and parsing of task identifiers (package util)\<close>

text \<open>
  \<open>mesos_v1.TaskState\<close> is a protobuf enum, in Go an \<open>int32\<close> with named constants;
  a value received from the wire may be none of them.  The constants carry the numbers
  of the Mesos protocol (the declaration is generated from \<open>mesos.proto\<close> and is not
  among the sources); the last five are states of Mesos that the function does not name.
\<close>

type_synonym mesos_TaskState = "32 word"

definition TaskState_TASK_STARTING :: mesos_TaskState where "TaskState_TASK_STARTING = 0"
definition TaskState_TASK_RUNNING :: mesos_TaskState where "TaskState_TASK_RUNNING = 1"
definition TaskState_TASK_FINISHED :: mesos_TaskState where "TaskState_TASK_FINISHED = 2"
definition TaskState_TASK_FAILED :: mesos_TaskState where "TaskState_TASK_FAILED = 3"
definition TaskState_TASK_KILLED :: mesos_TaskState where "TaskState_TASK_KILLED = 4"
definition TaskState_TASK_LOST :: mesos_TaskState where "TaskState_TASK_LOST = 5"
definition TaskState_TASK_STAGING :: mesos_TaskState where "TaskState_TASK_STAGING = 6"
definition TaskState_TASK_ERROR :: mesos_TaskState where "TaskState_TASK_ERROR = 7"
definition TaskState_TASK_KILLING :: mesos_TaskState where "TaskState_TASK_KILLING = 8"
definition TaskState_TASK_DROPPED :: mesos_TaskState where "TaskState_TASK_DROPPED = 9"
definition TaskState_TASK_UNREACHABLE :: mesos_TaskState where "TaskState_TASK_UNREACHABLE = 10"
definition TaskState_TASK_GONE :: mesos_TaskState where "TaskState_TASK_GONE = 11"
definition TaskState_TASK_GONE_BY_OPERATOR :: mesos_TaskState where
  "TaskState_TASK_GONE_BY_OPERATOR = 12"
definition TaskState_TASK_UNKNOWN :: mesos_TaskState where "TaskState_TASK_UNKNOWN = 13"

text \<open>
  The states of \<open>task.RuntimeInfo_TaskState\<close> that the translation returns, under the
  names this version of the API gives them.
\<close>

datatype RuntimeInfo_TaskState =
    RuntimeInfo_INITIALIZED | RuntimeInfo_LAUNCHED | RuntimeInfo_RUNNING
  | RuntimeInfo_SUCCEEDED | RuntimeInfo_FAILED | RuntimeInfo_KILLED | RuntimeInfo_LOST

text \<open>\<open>MesosStateToPelotonState\<close>: the cases of the \<open>switch\<close> in their order, then the default.\<close>

definition MesosStateToPelotonState :: "mesos_TaskState \<Rightarrow> RuntimeInfo_TaskState" where
  "MesosStateToPelotonState mstate =
     (if mstate = TaskState_TASK_STAGING then RuntimeInfo_LAUNCHED
      else if mstate = TaskState_TASK_STARTING then RuntimeInfo_LAUNCHED
      else if mstate = TaskState_TASK_RUNNING then RuntimeInfo_RUNNING
      else if mstate = TaskState_TASK_KILLING then RuntimeInfo_RUNNING
      else if mstate = TaskState_TASK_FINISHED then RuntimeInfo_SUCCEEDED
      else if mstate = TaskState_TASK_FAILED then RuntimeInfo_FAILED
      else if mstate = TaskState_TASK_KILLED then RuntimeInfo_KILLED
      else if mstate = TaskState_TASK_LOST then RuntimeInfo_LOST
      else if mstate = TaskState_TASK_ERROR then RuntimeInfo_FAILED
      else RuntimeInfo_INITIALIZED)"

text \<open>
  \<open>strings.Split\<close> with a separator of one character: the pieces between the
  occurrences of the separator, one piece more than there are occurrences.
\<close>

fun Split :: "string \<Rightarrow> char \<Rightarrow> string list" where
  "Split [] sep = [[]]"
| "Split (c # cs) sep =
     (if c = sep then [] # Split cs sep
      else (case Split cs sep of [] \<Rightarrow> [[c]] | p # ps \<Rightarrow> (c # p) # ps))"

text \<open>
  \<open>strconv.Atoi\<close> of Go's library, which is \<open>ParseInt\<close> in base 10 for the size of
  \<open>int\<close>, 64 bits here.  \<open>ParseUint\<close> reads the digits from the left into a
  \<open>uint64\<close> and stops with a range error where the next step would overflow;
  \<open>ParseInt\<close> strips one sign and checks the value against \<open>2 ^ 63\<close>.
\<close>

datatype NumError = ErrSyntax | ErrRange

definition is_digit :: "char \<Rightarrow> bool" where
  "is_digit c = (48 \<le> (of_char c :: int) \<and> (of_char c :: int) \<le> 57)"

definition digit_val :: "char \<Rightarrow> int" where
  "digit_val c = of_char c - 48"

definition maxUint64 :: int where
  "maxUint64 = 18446744073709551615"

fun ParseUint_loop :: "int \<Rightarrow> string \<Rightarrow> NumError + int" where
  "ParseUint_loop n [] = Inr n"
| "ParseUint_loop n (c # cs) =
     (if \<not> is_digit c then Inl ErrSyntax
      else if n \<ge> maxUint64 div 10 + 1 then Inl ErrRange
      else let n1 = n * 10 + digit_val c
           in if n1 > maxUint64 then Inl ErrRange else ParseUint_loop n1 cs)"

definition ParseUint :: "string \<Rightarrow> NumError + int" where
  "ParseUint s = (if s = [] then Inl ErrSyntax else ParseUint_loop 0 s)"

definition ParseInt :: "string \<Rightarrow> NumError + int" where
  "ParseInt s =
     (case s of
        [] \<Rightarrow> Inl ErrSyntax
      | c # cs \<Rightarrow>
          let neg = (c = CHR ''-'');
              s' = (if c = CHR ''+'' \<or> c = CHR ''-'' then cs else s);
              r = ParseUint s'
          in if r = Inl ErrSyntax then Inl ErrSyntax
             else
               let un = (case r of Inl err \<Rightarrow> maxUint64 | Inr n \<Rightarrow> n)
               in if \<not> neg \<and> un \<ge> 2 ^ 63 then Inl ErrRange
                  else if neg \<and> un > 2 ^ 63 then Inl ErrRange
                  else Inr (if neg then - un else un))"

definition Atoi :: "string \<Rightarrow> NumError + int" where
  "Atoi s = ParseInt s"

text \<open>The verb \<open>%d\<close> of \<open>fmt.Sprintf\<close> on an \<open>int\<close>: the decimal digits, after a minus sign when negative.\<close>

fun show_nat :: "nat \<Rightarrow> string" where
  "show_nat n =
     (if n < 10 then [''0123456789'' ! n]
      else show_nat (n div 10) @ [''0123456789'' ! (n mod 10)])"

declare show_nat.simps [simp del]

definition show_int :: "int \<Rightarrow> string" where
  "show_int i = (if i < 0 then CHR ''-'' # show_nat (nat (- i)) else show_nat (nat i))"

text \<open>
  \<open>ParseTaskIDFromMesosTaskID\<close>.  Both errors carry the identifier in their message;
  the text of Atoi's error, which the second message ends with, is left out.
\<close>

definition ParseTaskIDFromMesosTaskID :: "string \<Rightarrow> error + string" where
  "ParseTaskIDFromMesosTaskID mesosTaskID =
     (let parts = Split mesosTaskID CHR ''-''
      in if length parts < 2
         then Inl (Error (''Invalid peloton mesos task ID '' @ mesosTaskID))
         else
           let jobID = parts ! 0
           in (case Atoi (parts ! 1) of
                 Inl err \<Rightarrow> Inl (Error (''Invalid peloton mesos task ID '' @ mesosTaskID))
               | Inr iID \<Rightarrow> Inr (jobID @ ''-'' @ show_int iID)))"

text \<open>
  The words of the claim on the second segment: a decimal integer is one or more decimal
  digits after at most one sign, and its value is that of its digits.
\<close>

definition unsigned_part :: "string \<Rightarrow> string" where
  "unsigned_part s =
     (case s of [] \<Rightarrow> [] | c # cs \<Rightarrow> if c = CHR ''+'' \<or> c = CHR ''-'' then cs else s)"

definition decimal_integer :: "string \<Rightarrow> bool" where
  "decimal_integer s = (unsigned_part s \<noteq> [] \<and> list_all is_digit (unsigned_part s))"

definition decimal_value :: "string \<Rightarrow> int" where
  "decimal_value ds = foldl (\<lambda>n c. n * 10 + digit_val c) 0 ds"

definition negative :: "string \<Rightarrow> bool" where
  "negative s = (case s of [] \<Rightarrow> False | c # cs \<Rightarrow> c = CHR ''-'')"

section \<open>Recovery of initialized jobs (jobmgr/job/recovery.go, jobmgr/task/util.go)\<close>

datatype JobType = JobType_BATCH | JobType_SERVICE | JobType_DAEMON

datatype JobState =
    JobState_UNKNOWN | JobState_INITIALIZED | JobState_PENDING | JobState_RUNNING
  | JobState_SUCCEEDED | JobState_FAILED | JobState_KILLED

record JobConfig =
  InstanceCount :: uint32
  JobConfig_Type :: JobType
  OwningTeam :: string
  JobConfig_ChangeLog :: "ChangeLog option"

record JobRuntime =
  JobRuntime_State :: JobState
  CreationTime :: string

text \<open>
  A task as the store holds it.  The configuration of the task, which
  \<open>jm_task.GetTaskConfig\<close> derives from the configuration of the job, plays no part
  in the recovery and is left out.
\<close>

record TaskInfo =
  InstanceId :: uint32
  JobId :: string
  Runtime :: RuntimeInfo

text \<open>\<open>GetDefaultTaskGoalState\<close>: RUNNING for a service, SUCCEEDED for every other type.\<close>

definition GetDefaultTaskGoalState :: "JobType \<Rightarrow> TaskState" where
  "GetDefaultTaskGoalState jobType =
     (case jobType of JobType_SERVICE \<Rightarrow> TaskState_RUNNING | _ \<Rightarrow> TaskState_SUCCEEDED)"

text \<open>
  \<open>CreateInitializingTask\<close>, the runtime with which the job manager creates a task
  outside recovery: its goal state follows the type of the job.
\<close>

definition CreateInitializingTask :: "string \<Rightarrow> uint32 \<Rightarrow> JobConfig \<Rightarrow> RuntimeInfo" where
  "CreateInitializingTask jobID instanceID jobConfig =
     \<lparr>State = TaskState_INITIALIZED,
      GoalState = GetDefaultTaskGoalState (JobConfig_Type jobConfig),
      MesosTaskId = Some (jobID @ ''-'' @ show_nat (unat instanceID) @ ''-'' @ show_nat 1),
      ConfigVersion = GetVersion (JobConfig_ChangeLog jobConfig),
      DesiredConfigVersion = GetVersion (JobConfig_ChangeLog jobConfig),
      Revision = None\<rparr>"

text \<open>
  The task store of one job: the rows by instance, and for each instance whether reading
  or creating it fails.  \<open>GetTaskForJob\<close> answers with the tasks of the instance, with
  the error of a task not found, or with another error.
\<close>

datatype store_error = TaskNotFoundError | StoreError string

record TaskStore =
  rows :: "uint32 \<rightharpoonup> TaskInfo"
  read_fails :: "uint32 \<Rightarrow> bool"
  create_fails :: "uint32 \<Rightarrow> bool"

definition GetTaskForJob :: "TaskStore \<Rightarrow> uint32 \<Rightarrow> store_error + TaskInfo list" where
  "GetTaskForJob st i =
     (if read_fails st i then Inl (StoreError ''read failed'')
      else (case rows st i of None \<Rightarrow> Inl TaskNotFoundError | Some t \<Rightarrow> Inr [t]))"

definition CreateTask :: "TaskStore \<Rightarrow> uint32 \<Rightarrow> TaskInfo \<Rightarrow> store_error + TaskStore" where
  "CreateTask st i t =
     (if create_fails st i then Inl (StoreError ''create failed'')
      else Inr (st\<lparr>rows := (rows st)(i \<mapsto> t)\<rparr>))"

text \<open>
  \<open>createTaskForJob\<close>.  The identifier of the Mesos task ends in a new UUID, given here
  by a function of the instance.  The goal state is the constant of the source.
\<close>

definition createTaskForJob ::
  "(uint32 \<Rightarrow> string) \<Rightarrow> TaskStore \<Rightarrow> string \<Rightarrow> uint32 \<Rightarrow> JobConfig
     \<Rightarrow> store_error + (TaskStore \<times> TaskInfo)" where
  "createTaskForJob uuid st jobID i jobConfig =
     (let mesosTaskID = jobID @ ''-'' @ show_nat (unat i) @ ''-'' @ uuid i;
          task = \<lparr>InstanceId = i, JobId = jobID,
                  Runtime = \<lparr>State = TaskState_INITIALIZED, GoalState = TaskState_SUCCEEDED,
                             MesosTaskId = Some mesosTaskID, ConfigVersion = 0,
                             DesiredConfigVersion = 0, Revision = None\<rparr>\<rparr>
      in (case CreateTask st i task of
            Inl err \<Rightarrow> Inl err
          | Inr st' \<Rightarrow> Inr (st', task)))"

text \<open>
  The inner loop of \<open>recoverJob\<close> over the instances of one batch: the store and the
  tasks to requeue so far go in; an error of \<open>createTaskForJob\<close> ends the recovery,
  another error of the read skips the instance.
\<close>

fun recoverInstances ::
  "(uint32 \<Rightarrow> string) \<Rightarrow> string \<Rightarrow> JobConfig \<Rightarrow> nat list \<Rightarrow> TaskStore \<Rightarrow> TaskInfo list
     \<Rightarrow> TaskStore \<times> (store_error + TaskInfo list)" where
  "recoverInstances uuid jobID jobConfig [] st tasksToRequeue = (st, Inr tasksToRequeue)"
| "recoverInstances uuid jobID jobConfig (i # is) st tasksToRequeue =
     (case GetTaskForJob st (of_nat i) of
        Inl err \<Rightarrow>
          if err \<noteq> TaskNotFoundError
          then recoverInstances uuid jobID jobConfig is st tasksToRequeue
          else (case createTaskForJob uuid st jobID (of_nat i) jobConfig of
                  Inl err' \<Rightarrow> (st, Inl err')
                | Inr (st', task) \<Rightarrow>
                    recoverInstances uuid jobID jobConfig is st' (tasksToRequeue @ [task]))
      | Inr t \<Rightarrow>
          recoverInstances uuid jobID jobConfig is st
            (tasksToRequeue @ filter (\<lambda>taskInfo. State (Runtime taskInfo) = TaskState_INITIALIZED) t))"

text \<open>
  The resource manager: the tasks enqueued so far, and whether \<open>EnqueueTasks\<close> fails.
  The job store answers for the one job recovered.
\<close>

record world =
  taskStore :: TaskStore
  resmgr_queue :: "TaskInfo list"
  enqueue_fails :: bool
  GetJobConfig :: "store_error + JobConfig"
  GetJobRuntime :: "store_error + JobRuntime"
  update_job_fails :: bool
  stored_job_state :: JobState

definition batchRows :: nat where "batchRows = 1000"
definition recoveryInterval :: Time where "recoveryInterval = 15 * 60 * 1000000000"

text \<open>
  The outer loop of \<open>recoverJob\<close> over the batches.  The end of a batch is computed in
  \<open>uint32\<close>: the product wraps around at \<open>2 ^ 32\<close>.
\<close>

fun recoverBatches ::
  "(uint32 \<Rightarrow> string) \<Rightarrow> string \<Rightarrow> JobConfig \<Rightarrow> nat list \<Rightarrow> world \<Rightarrow> world \<times> store_error option" where
  "recoverBatches uuid jobID jobConfig [] w = (w, None)"
| "recoverBatches uuid jobID jobConfig (batch # batches) w =
     (let start = batch * batchRows;
          end' = min (((batch + 1) * batchRows) mod 2 ^ 32) (unat (InstanceCount jobConfig))
      in (case recoverInstances uuid jobID jobConfig [start ..< end'] (taskStore w) [] of
            (st, Inl err) \<Rightarrow> (w\<lparr>taskStore := st\<rparr>, Some err)
          | (st, Inr tasksToRequeue) \<Rightarrow>
              if length tasksToRequeue > 0
              then (if enqueue_fails w
                    then (w\<lparr>taskStore := st\<rparr>, Some (StoreError ''Failed to EnqueueTasks to resmgr''))
                    else recoverBatches uuid jobID jobConfig batches
                           (w\<lparr>taskStore := st, resmgr_queue := resmgr_queue w @ tasksToRequeue\<rparr>))
              else recoverBatches uuid jobID jobConfig batches (w\<lparr>taskStore := st\<rparr>)))"

text \<open>
  \<open>Recovery.recoverJob\<close>.  The creation time of the job is parsed by \<open>time.Parse\<close>,
  a parameter here; a job younger than the recovery interval is left alone; after the
  batches the job is made PENDING.
\<close>

definition recoverJob ::
  "(uint32 \<Rightarrow> string) \<Rightarrow> (string \<Rightarrow> store_error + Time) \<Rightarrow> Time \<Rightarrow> string \<Rightarrow> world
     \<Rightarrow> world \<times> store_error option" where
  "recoverJob uuid parseTime now jobID w =
     (case GetJobConfig w of
        Inl err \<Rightarrow> (w, Some err)
      | Inr jobConfig \<Rightarrow>
          (case GetJobRuntime w of
             Inl err \<Rightarrow> (w, Some err)
           | Inr jobRuntime \<Rightarrow>
               (case parseTime (CreationTime jobRuntime) of
                  Inl err \<Rightarrow> (w, Some err)
                | Inr createTime \<Rightarrow>
                    if now - createTime < recoveryInterval then (w, None)
                    else
                      (case recoverBatches uuid jobID jobConfig
                              [0 ..< unat (InstanceCount jobConfig) div batchRows + 1] w of
                         (w', Some err) \<Rightarrow> (w', Some err)
                       | (w', None) \<Rightarrow>
                           if update_job_fails w'
                           then (w', Some (StoreError ''Failed to UpdateJobRuntime''))
                           else (w'\<lparr>stored_job_state := JobState_PENDING\<rparr>, None)))))"

text \<open>
  The job of scenario S6, three instances of which instance 0 is stored in state
  INITIALIZED, and the same job of type SERVICE with an empty store.
\<close>

definition S6_task0 :: TaskInfo where
  "S6_task0 = \<lparr>InstanceId = 0, JobId = ''J'',
      Runtime = \<lparr>State = TaskState_INITIALIZED, GoalState = TaskState_SUCCEEDED,
                 MesosTaskId = Some ''J-0-u'', ConfigVersion = 0, DesiredConfigVersion = 0,
                 Revision = None\<rparr>\<rparr>"

definition S6_world :: world where
  "S6_world =
     \<lparr>taskStore = \<lparr>rows = [0 \<mapsto> S6_task0], read_fails = (\<lambda>i. False), create_fails = (\<lambda>i. False)\<rparr>,
      resmgr_queue = [], enqueue_fails = False,
      GetJobConfig = Inr \<lparr>InstanceCount = 3, JobConfig_Type = JobType_BATCH,
                           OwningTeam = ''team'', JobConfig_ChangeLog = None\<rparr>,
      GetJobRuntime = Inr \<lparr>JobRuntime_State = JobState_INITIALIZED, CreationTime = ''t0''\<rparr>,
      update_job_fails = False, stored_job_state = JobState_INITIALIZED\<rparr>"

definition service_world :: world where
  "service_world =
     \<lparr>taskStore = \<lparr>rows = Map.empty, read_fails = (\<lambda>i. False), create_fails = (\<lambda>i. False)\<rparr>,
      resmgr_queue = [], enqueue_fails = False,
      GetJobConfig = Inr \<lparr>InstanceCount = 1, JobConfig_Type = JobType_SERVICE,
                           OwningTeam = ''team'', JobConfig_ChangeLog = None\<rparr>,
      GetJobRuntime = Inr \<lparr>JobRuntime_State = JobState_INITIALIZED, CreationTime = ''t0''\<rparr>,
      update_job_fails = False, stored_job_state = JobState_INITIALIZED\<rparr>"

section \<open>The offer pool (hostmgr/offer)\<close>

text \<open>
  Modelled from the spec: the offer pool and its \<open>RemoveExpiredOffers\<close> are not among
  the sources, which hold only the test \<open>TestRemoveExpiredOffers\<close> and the pruner that
  calls it.  The spec gives the state as a map from the identifier of an offer to the
  offer with its time of arrival, and a configurable hold time; \<open>remove_expired\<close>
  returns and removes the offers whose \<open>now - timestamp > hold_time\<close>, or all offers
  when forced.  The map is a list of pairs with the identifier first, so that the
  identifiers removed can be listed.
\<close>

type_synonym OfferID = string

record Offer =
  Offer_Hostname :: string
  Timestamp :: Time

record offerPool =
  offers :: "(OfferID \<times> Offer) list"
  offerHoldTime :: Time

definition offer_expired :: "offerPool \<Rightarrow> Time \<Rightarrow> bool \<Rightarrow> Offer \<Rightarrow> bool" where
  "offer_expired pool now force offer = (force \<or> now - Timestamp offer > offerHoldTime pool)"

definition RemoveExpiredOffers :: "offerPool \<Rightarrow> Time \<Rightarrow> bool \<Rightarrow> OfferID list \<times> offerPool" where
  "RemoveExpiredOffers pool now force =
     (map fst (filter (\<lambda>(offerID, offer). offer_expired pool now force offer) (offers pool)),
      pool\<lparr>offers := filter (\<lambda>(offerID, offer). \<not> offer_expired pool now force offer) (offers pool)\<rparr>)"

text \<open>
  The pool of scenario S3 at the time 10 minutes, in nanoseconds: offer A has just
  arrived, offer B arrived two minutes ago, and the hold time is one minute.
\<close>

definition S3_pool :: offerPool where
  "S3_pool =
     \<lparr>offers = [(''A'', \<lparr>Offer_Hostname = ''h1'', Timestamp = 600000000000\<rparr>),
                (''B'', \<lparr>Offer_Hostname = ''h2'', Timestamp = 480000000000\<rparr>)],
      offerHoldTime = 60000000000\<rparr>"

section \<open>The failure policy of an update run (jobmgr/goalstate)\<close>

text \<open>
  Modelled from the spec: \<open>UpdateRun\<close> and the cached update are not among the
  sources, which hold only the tests of \<open>UpdateRun\<close>.  The spec has the run classify
  every instance in flight as done, failed or in progress (step 4) and, when the number
  of failed instances has reached \<open>max_failure_instances\<close> (step 7), either roll the
  update back, swapping the current and the target version of the configuration and
  making the state ROLLING_BACKWARD, when \<open>rollback_on_failure\<close> is set and the state
  is ROLLING_FORWARD, or write the progress with the state FAILED and enqueue the update
  for finalization.  The tests in the sources fix what the spec leaves open: with
  \<open>MaxFailureInstances\<close> unset, which is 0, \<open>TestRunningUpdate\<close> and
  \<open>TestCompletedUpdate\<close> expect the run to go on and to write its progress with the
  state of the update, so the limit counts only when it is not 0.  The classification of
  an instance, which the source reads from its runtime, is a parameter.  The steps of a
  run that the failure policy does not end (5, 6 and 8) are not modelled: there the
  result is the classification they start from.
\<close>

datatype update_State =
    State_INITIALIZED | State_ROLLING_FORWARD | State_ROLLING_BACKWARD | State_PAUSED
  | State_SUCCEEDED | State_FAILED | State_ABORTED

record UpdateConfig =
  BatchSize :: uint32
  MaxFailureInstances :: uint32
  MaxInstanceAttempts :: uint32
  RollbackOnFailure :: bool

record Update =
  update_state :: update_State
  current_version :: uint64
  target_version :: uint64
  instances_total :: "uint32 list"
  instances_done :: "uint32 list"
  instances_failed :: "uint32 list"
  instances_current :: "uint32 list"
  update_config :: UpdateConfig

datatype instance_status = Instance_Done | Instance_Failed | Instance_InProgress

datatype update_effect =
    WriteProgress update_State "uint32 list" "uint32 list" "uint32 list"
  | EnqueueUpdate

text \<open>
  What a run comes to after the classification: the failure policy ends it, with the
  update it leaves and its effects, or the run continues with the instances done, failed
  and in progress.
\<close>

datatype run_outcome =
    Run_FailurePolicy Update "update_effect list"
  | Run_Continues "uint32 list" "uint32 list" "uint32 list"

definition processFailedUpdate ::
  "Update \<Rightarrow> uint32 list \<Rightarrow> uint32 list \<Rightarrow> uint32 list \<Rightarrow> run_outcome" where
  "processFailedUpdate u done failed current =
     (if RollbackOnFailure (update_config u) \<and> update_state u = State_ROLLING_FORWARD
      then Run_FailurePolicy
             (u\<lparr>update_state := State_ROLLING_BACKWARD,
                current_version := target_version u,
                target_version := current_version u\<rparr>)
             [EnqueueUpdate]
      else Run_FailurePolicy
             (u\<lparr>update_state := State_FAILED, instances_done := done,
                instances_failed := failed, instances_current := current\<rparr>)
             [WriteProgress State_FAILED done failed current, EnqueueUpdate])"

definition UpdateRun :: "(uint32 \<Rightarrow> instance_status) \<Rightarrow> Update \<Rightarrow> run_outcome" where
  "UpdateRun status u =
     (let done = instances_done u @ filter (\<lambda>i. status i = Instance_Done) (instances_current u);
          failed = instances_failed u @ filter (\<lambda>i. status i = Instance_Failed) (instances_current u);
          current = filter (\<lambda>i. status i = Instance_InProgress) (instances_current u)
      in if MaxFailureInstances (update_config u) \<noteq> 0
            \<and> length failed \<ge> unat (MaxFailureInstances (update_config u))
         then processFailedUpdate u done failed current
         else Run_Continues done failed current)"

text \<open>
  The update of scenario S4 and of the tests \<open>TestRunningUpdateFailed\<close>,
  \<open>TestRunningUpdateRolledBack\<close> and \<open>TestUpdateRollingBackFailed\<close>: the instances 0
  to 6 are in flight, of which 0, 1 and 2 have failed and the others are done, with at
  most 3 failed instances allowed; \<open>TestRunningUpdatePartialFailure\<close> allows 4.
\<close>

definition S4_update :: "bool \<Rightarrow> update_State \<Rightarrow> Update" where
  "S4_update rollback st =
     \<lparr>update_state = st, current_version = 3, target_version = 4,
      instances_total = [0, 1, 2, 3, 4, 5, 6], instances_done = [], instances_failed = [],
      instances_current = [0, 1, 2, 3, 4, 5, 6],
      update_config = \<lparr>BatchSize = 0, MaxFailureInstances = 3, MaxInstanceAttempts = 0,
                       RollbackOnFailure = rollback\<rparr>\<rparr>"

definition S4_status :: "uint32 \<Rightarrow> instance_status" where
  "S4_status i = (if i < 3 then Instance_Failed else Instance_Done)"

text \<open>
  The update of \<open>TestRunningUpdate\<close>: the instances 2 to 6 are in flight, 3 and 6 are
  done, the others in progress and none has failed; the configuration of the update
  sets the size of the batch only, so the limit of failed instances is 0.
\<close>

definition TestRunningUpdate_update :: Update where
  "TestRunningUpdate_update =
     \<lparr>update_state = State_ROLLING_FORWARD, current_version = 3, target_version = 4,
      instances_total = [2, 3, 4, 5, 6], instances_done = [], instances_failed = [],
      instances_current = [2, 3, 4, 5, 6],
      update_config = \<lparr>BatchSize = 0, MaxFailureInstances = 0, MaxInstanceAttempts = 0,
                       RollbackOnFailure = False\<rparr>\<rparr>"

definition TestRunningUpdate_status :: "uint32 \<Rightarrow> instance_status" where
  "TestRunningUpdate_status i = (if i = 3 \<or> i = 6 then Instance_Done else Instance_InProgress)"

section \<open>Properties of the runtime cache\<close>

lemma UpdateRuntime_same: "UpdateRuntime t (runtime t) now = t"
  by (simp add: UpdateRuntime_def)

text \<open>
  C1.  A task whose cached runtime has revision \<open>r\<close> drops an update whose revision is
  strictly less than \<open>r\<close>: the task is returned as it was, with its cached runtime, its
  last update time and every other field.
\<close>

theorem UpdateRuntime_stale_dropped:
  assumes "runtime t = Some cached"
    and "GetVersion (GetRevision new) < GetVersion (GetRevision (Some cached))"
  shows "UpdateRuntime t new now = t"
  using assms by (simp add: UpdateRuntime_def)

theorem UpdateRuntime_stale_dropped_witness:
  "runtime \<lparr>job_id = ''j'', task_id = 0,
      runtime = Some \<lparr>State = TaskState_RUNNING, GoalState = TaskState_RUNNING,
        MesosTaskId = None, ConfigVersion = 1, DesiredConfigVersion = 1,
        Revision = Some \<lparr>Version = 5\<rparr>\<rparr>,
      lastAction = ''no_action'', lastActionTime = 0, lastRuntimeUpdateTime = 7,
      killingAttempts = 0\<rparr>
    = Some \<lparr>State = TaskState_RUNNING, GoalState = TaskState_RUNNING,
        MesosTaskId = None, ConfigVersion = 1, DesiredConfigVersion = 1,
        Revision = Some \<lparr>Version = 5\<rparr>\<rparr>
  \<and> GetVersion (GetRevision (Some \<lparr>State = TaskState_FAILED, GoalState = TaskState_RUNNING,
        MesosTaskId = None, ConfigVersion = 1, DesiredConfigVersion = 1,
        Revision = Some \<lparr>Version = 4\<rparr>\<rparr>))
    < GetVersion (GetRevision (Some \<lparr>State = TaskState_RUNNING, GoalState = TaskState_RUNNING,
        MesosTaskId = None, ConfigVersion = 1, DesiredConfigVersion = 1,
        Revision = Some \<lparr>Version = 5\<rparr>\<rparr>))
  \<and> UpdateRuntime \<lparr>job_id = ''j'', task_id = 0,
      runtime = Some \<lparr>State = TaskState_RUNNING, GoalState = TaskState_RUNNING,
        MesosTaskId = None, ConfigVersion = 1, DesiredConfigVersion = 1,
        Revision = Some \<lparr>Version = 5\<rparr>\<rparr>,
      lastAction = ''no_action'', lastActionTime = 0, lastRuntimeUpdateTime = 7,
      killingAttempts = 0\<rparr>
      (Some \<lparr>State = TaskState_FAILED, GoalState = TaskState_RUNNING,
        MesosTaskId = None, ConfigVersion = 1, DesiredConfigVersion = 1,
        Revision = Some \<lparr>Version = 4\<rparr>\<rparr>) 99
    = \<lparr>job_id = ''j'', task_id = 0,
      runtime = Some \<lparr>State = TaskState_RUNNING, GoalState = TaskState_RUNNING,
        MesosTaskId = None, ConfigVersion = 1, DesiredConfigVersion = 1,
        Revision = Some \<lparr>Version = 5\<rparr>\<rparr>,
      lastAction = ''no_action'', lastActionTime = 0, lastRuntimeUpdateTime = 7,
      killingAttempts = 0\<rparr>"
proof -
  let ?cached = "\<lparr>State = TaskState_RUNNING, GoalState = TaskState_RUNNING,
        MesosTaskId = None, ConfigVersion = 1, DesiredConfigVersion = 1,
        Revision = Some \<lparr>Version = 5\<rparr>\<rparr>"
  let ?new = "Some \<lparr>State = TaskState_FAILED, GoalState = TaskState_RUNNING,
        MesosTaskId = None, ConfigVersion = 1, DesiredConfigVersion = 1,
        Revision = Some \<lparr>Version = 4\<rparr>\<rparr>"
  let ?t = "\<lparr>job_id = ''j'', task_id = 0, runtime = Some ?cached,
      lastAction = ''no_action'', lastActionTime = 0, lastRuntimeUpdateTime = 7,
      killingAttempts = 0\<rparr>"
  have h1: "runtime ?t = Some ?cached" by simp
  have h2: "GetVersion (GetRevision ?new) < GetVersion (GetRevision (Some ?cached))"
    by (simp add: GetVersion_def GetRevision_def)
  from UpdateRuntime_stale_dropped [OF h1 h2, of 99] h1 h2 show ?thesis by simp
qed


text \<open>
  C2.  The source at an update of equal revision: the cached runtime has revision 5 and
  state RUNNING, the new runtime has revision 5 and state FAILED.  The cache is not left
  nil: it holds the new runtime, and the time of the last update is the clock's.
\<close>

theorem UpdateRuntime_equal_revision_replaces:
  "UpdateRuntime \<lparr>job_id = ''j'', task_id = 0,
      runtime = Some \<lparr>State = TaskState_RUNNING, GoalState = TaskState_RUNNING,
        MesosTaskId = None, ConfigVersion = 1, DesiredConfigVersion = 1,
        Revision = Some \<lparr>Version = 5\<rparr>\<rparr>,
      lastAction = ''no_action'', lastActionTime = 0, lastRuntimeUpdateTime = 7,
      killingAttempts = 0\<rparr>
      (Some \<lparr>State = TaskState_FAILED, GoalState = TaskState_RUNNING,
        MesosTaskId = None, ConfigVersion = 1, DesiredConfigVersion = 1,
        Revision = Some \<lparr>Version = 5\<rparr>\<rparr>) 99
    = \<lparr>job_id = ''j'', task_id = 0,
      runtime = Some \<lparr>State = TaskState_FAILED, GoalState = TaskState_RUNNING,
        MesosTaskId = None, ConfigVersion = 1, DesiredConfigVersion = 1,
        Revision = Some \<lparr>Version = 5\<rparr>\<rparr>,
      lastAction = ''no_action'', lastActionTime = 0, lastRuntimeUpdateTime = 99,
      killingAttempts = 0\<rparr>"
  by (simp add: UpdateRuntime_def GetVersion_def GetRevision_def)




section \<open>Properties of the batch placement\<close>

lemma unat_ucast_NumPorts: "unat (ucast (x :: uint32) :: uint64) = unat x"
  by transfer simp

lemma ports_demand_Cons: "ports_demand (a # as) = unat (NumPorts (Task a)) + ports_demand as"
  by (simp add: ports_demand_def)

lemma scalar_demand_Cons:
  "scalar_demand (a # as) =
    \<lparr>CPU = CPU (FromResourceConfig (Task_Resource (Task a))) + CPU (scalar_demand as),
     Mem = Mem (FromResourceConfig (Task_Resource (Task a))) + Mem (scalar_demand as),
     Disk = Disk (FromResourceConfig (Task_Resource (Task a))) + Disk (scalar_demand as),
     GPU = GPU (FromResourceConfig (Task_Resource (Task a))) + GPU (scalar_demand as)\<rparr>"
  by (simp add: scalar_demand_def)

lemma SetHost_Task: "Task (SetHost a offer) = Task a"
  by (simp add: SetHost_def)

lemma fillOffer_loop_sufficient:
  "fillOffer_loop offer remainPorts remain unassigned = (placed, rest) \<Longrightarrow>
     ports_demand placed \<le> unat remainPorts
     \<and> (placed \<noteq> [] \<longrightarrow>
          CPU (scalar_demand placed) \<le> CPU remain
          \<and> Mem (scalar_demand placed) \<le> Mem remain
          \<and> Disk (scalar_demand placed) \<le> Disk remain
          \<and> GPU (scalar_demand placed) \<le> GPU remain)
     \<and> list_all (\<lambda>a. AssignedHost a = Some offer) placed"
proof (induction unassigned arbitrary: remainPorts remain placed rest)
  case Nil
  then show ?case by (simp add: ports_demand_def)
next
  case (Cons placement unassigned)
  let ?used = "ucast (NumPorts (Task placement)) :: uint64"
  let ?usage = "FromResourceConfig (Task_Resource (Task placement))"
  show ?case
  proof (cases "?used > remainPorts")
    case True
    with Cons.prems have "placed = []" by (simp add: Let_def)
    then show ?thesis by (simp add: ports_demand_def)
  next
    case ports_ok: False
    show ?thesis
    proof (cases "TrySubtract remain ?usage")
      case None
      with ports_ok Cons.prems have "placed = []" by (simp add: Let_def)
      then show ?thesis by (simp add: ports_demand_def)
    next
      case (Some r)
      obtain placed' rest' where
        rec: "fillOffer_loop offer (remainPorts - ?used) r unassigned = (placed', rest')"
        by (cases "fillOffer_loop offer (remainPorts - ?used) r unassigned")
      with ports_ok Some Cons.prems have placed: "placed = SetHost placement offer # placed'"
        by (simp add: Let_def)
      from Cons.IH [OF rec] have ih1: "ports_demand placed' \<le> unat (remainPorts - ?used)"
        and ih2: "placed' \<noteq> [] \<Longrightarrow> CPU (scalar_demand placed') \<le> CPU r
              \<and> Mem (scalar_demand placed') \<le> Mem r
              \<and> Disk (scalar_demand placed') \<le> Disk r
              \<and> GPU (scalar_demand placed') \<le> GPU r"
        and ih3: "list_all (\<lambda>a. AssignedHost a = Some offer) placed'"
        by simp_all
      from ports_ok have le: "?used \<le> remainPorts" by simp
      then have "unat (remainPorts - ?used) = unat remainPorts - unat (NumPorts (Task placement))"
        by (simp add: unat_sub unat_ucast_NumPorts)
      moreover from le have "unat (NumPorts (Task placement)) \<le> unat remainPorts"
        by (simp add: word_le_nat_alt unat_ucast_NumPorts)
      ultimately have p: "ports_demand placed \<le> unat remainPorts"
        using ih1 by (simp add: placed ports_demand_Cons SetHost_Task)
      from Some have r: "CPU r = CPU remain - CPU ?usage" "Mem r = Mem remain - Mem ?usage"
        "Disk r = Disk remain - Disk ?usage" "GPU r = GPU remain - GPU ?usage"
        and fit: "CPU ?usage \<le> CPU remain" "Mem ?usage \<le> Mem remain"
        "Disk ?usage \<le> Disk remain" "GPU ?usage \<le> GPU remain"
        by (auto simp: TrySubtract_def split: if_splits)
      have s: "CPU (scalar_demand placed) \<le> CPU remain
            \<and> Mem (scalar_demand placed) \<le> Mem remain
            \<and> Disk (scalar_demand placed) \<le> Disk remain
            \<and> GPU (scalar_demand placed) \<le> GPU remain"
      proof (cases "placed' = []")
        case True
        with fit show ?thesis by (simp add: placed scalar_demand_def SetHost_Task)
      next
        case False
        from ih2 [OF False] r show ?thesis
          by (simp add: placed scalar_demand_Cons SetHost_Task)
      qed
      from ih3 have "list_all (\<lambda>a. AssignedHost a = Some offer) placed"
        by (simp add: placed SetHost_def)
      with p s show ?thesis by simp
    qed
  qed
qed

lemma ranges_fold_count:
  "list_all (\<lambda>r. Range_Begin r \<le> Range_End r) rs \<Longrightarrow>
   unat ports + sum_list (map range_size rs) < 2 ^ 64 \<Longrightarrow>
   unat (fold (\<lambda>portRange ports'. ports' + (Range_End portRange - Range_Begin portRange + 1)) rs (ports :: uint64))
     = unat ports + sum_list (map range_size rs)"
proof (induction rs arbitrary: ports)
  case Nil
  then show ?case by simp
next
  case (Cons r rs)
  from Cons.prems have le: "Range_Begin r \<le> Range_End r" by simp
  then have d: "unat (Range_End r - Range_Begin r) = unat (Range_End r) - unat (Range_Begin r)"
    by (rule unat_sub)
  from Cons.prems have bound: "unat ports + range_size r < 2 ^ 64" by simp
  then have "unat (Range_End r - Range_Begin r) + unat (1 :: uint64) < 2 ^ LENGTH(64)"
    by (simp add: d range_size_def)
  then have s: "unat (Range_End r - Range_Begin r + 1) = range_size r"
    by (simp add: unat_add_lem [THEN iffD1] d range_size_def)
  with bound have "unat ports + unat (Range_End r - Range_Begin r + 1) < 2 ^ LENGTH(64)"
    by simp
  then have step: "unat (ports + (Range_End r - Range_Begin r + 1)) = unat ports + range_size r"
    by (simp add: unat_add_lem [THEN iffD1] s)
  from Cons.prems have "list_all (\<lambda>r. Range_Begin r \<le> Range_End r) rs"
    and "unat (ports + (Range_End r - Range_Begin r + 1)) + sum_list (map range_size rs) < 2 ^ 64"
    by (simp_all add: step)
  from Cons.IH [OF this] show ?case by (simp add: step)
qed

lemma resources_fold_count:
  "list_all (\<lambda>resource. Name resource = ''ports'' \<longrightarrow>
                  list_all (\<lambda>r. Range_Begin r \<le> Range_End r) (Ranges resource)) resources \<Longrightarrow>
   unat ports + port_count resources < 2 ^ 64 \<Longrightarrow>
   unat (fold (\<lambda>resource ports.
             if Name resource \<noteq> ''ports'' then ports
             else fold (\<lambda>portRange ports'. ports' + (Range_End portRange - Range_Begin portRange + 1))
                    (Ranges resource) ports) resources (ports :: uint64))
     = unat ports + port_count resources"
proof (induction resources arbitrary: ports)
  case Nil
  then show ?case by (simp add: port_count_def)
next
  case (Cons r rs)
  show ?case
  proof (cases "Name r = ''ports''")
    case False
    with Cons.prems have "unat ports + port_count rs < 2 ^ 64"
      and pc: "port_count (r # rs) = port_count rs"
      by (simp_all add: port_count_def)
    with Cons.IH [of ports] Cons.prems(1) False show ?thesis by simp
  next
    case True
    let ?p = "fold (\<lambda>portRange ports'. ports' + (Range_End portRange - Range_Begin portRange + 1))
                    (Ranges r) ports"
    from True have pc: "port_count (r # rs) = sum_list (map range_size (Ranges r)) + port_count rs"
      by (simp add: port_count_def)
    from True Cons.prems(1) have wf: "list_all (\<lambda>r. Range_Begin r \<le> Range_End r) (Ranges r)"
      by simp
    from Cons.prems(2) pc have "unat ports + sum_list (map range_size (Ranges r)) < 2 ^ 64"
      by simp
    from ranges_fold_count [OF wf this]
    have p: "unat ?p = unat ports + sum_list (map range_size (Ranges r))" .
    with Cons.prems(2) pc have b: "unat ?p + port_count rs < 2 ^ 64" by simp
    from Cons.prems(1) have "list_all (\<lambda>resource. Name resource = ''ports'' \<longrightarrow>
                  list_all (\<lambda>r. Range_Begin r \<le> Range_End r) (Ranges resource)) rs"
      by simp
    then have "unat (fold (\<lambda>resource ports.
             if Name resource \<noteq> ''ports'' then ports
             else fold (\<lambda>portRange ports'. ports' + (Range_End portRange - Range_Begin portRange + 1))
                    (Ranges resource) ports) rs ?p) = unat ?p + port_count rs"
      using b by (rule Cons.IH)
    with True p pc show ?thesis by simp
  qed
qed

lemma availablePorts_count:
  "well_formed_ports resources \<Longrightarrow> unat (availablePorts resources) = port_count resources"
  using resources_fold_count [of resources 0]
  by (simp add: well_formed_ports_def availablePorts_def)

text \<open>
  C3.  After \<open>fillOffer\<close>, the ports demanded by the assignments bound to the offer do
  not exceed the ports that \<open>availablePorts\<close> counts in the offer, which for an offer
  with well-formed ranges is the number of ports in its ranges; every one of these
  assignments has the offer as its host, and, when there is one at least, the sum of
  their scalar demands can be subtracted from the resources of the offer, each of cpu,
  mem, disk and gpu staying at or above zero.
\<close>

theorem fillOffer_placement_sufficient:
  assumes "fillOffer offer unassigned = (placed, rest)"
  shows "ports_demand placed \<le> unat (availablePorts (Offer_Resources offer))
     \<and> (placed \<noteq> [] \<longrightarrow>
          (\<exists>remaining.
              TrySubtract (FromMesosResources (Offer_Resources offer)) (scalar_demand placed)
                = Some remaining
              \<and> 0 \<le> CPU remaining \<and> 0 \<le> Mem remaining
              \<and> 0 \<le> Disk remaining \<and> 0 \<le> GPU remaining))
     \<and> list_all (\<lambda>a. AssignedHost a = Some offer) placed
     \<and> (well_formed_ports (Offer_Resources offer) \<longrightarrow>
          ports_demand placed \<le> port_count (Offer_Resources offer))"
proof -
  from assms have loop: "fillOffer_loop offer (availablePorts (Offer_Resources offer))
       (FromMesosResources (Offer_Resources offer)) unassigned = (placed, rest)"
    by (simp add: fillOffer_def)
  note s = fillOffer_loop_sufficient [OF loop]
  have "placed \<noteq> [] \<longrightarrow>
          (\<exists>remaining.
              TrySubtract (FromMesosResources (Offer_Resources offer)) (scalar_demand placed)
                = Some remaining
              \<and> 0 \<le> CPU remaining \<and> 0 \<le> Mem remaining
              \<and> 0 \<le> Disk remaining \<and> 0 \<le> GPU remaining)"
  proof
    assume "placed \<noteq> []"
    with s show "\<exists>remaining.
              TrySubtract (FromMesosResources (Offer_Resources offer)) (scalar_demand placed)
                = Some remaining
              \<and> 0 \<le> CPU remaining \<and> 0 \<le> Mem remaining
              \<and> 0 \<le> Disk remaining \<and> 0 \<le> GPU remaining"
      by (simp add: TrySubtract_def)
  qed
  moreover have "well_formed_ports (Offer_Resources offer) \<longrightarrow>
          ports_demand placed \<le> port_count (Offer_Resources offer)"
    using s by (auto simp: availablePorts_count)
  ultimately show ?thesis using s by simp
qed

lemma S1_fillOffer: "fillOffer S1_offer [S1_task, S1_task] =
   ([S1_task\<lparr>AssignedHost := Some S1_offer\<rparr>, S1_task\<lparr>AssignedHost := Some S1_offer\<rparr>], [])"
  by (simp add: fillOffer_def availablePorts_def FromMesosResources_def scalar_total_def
      S1_offer_def S1_task_def FromResourceConfig_def TrySubtract_def SetHost_def Let_def)



theorem fillOffer_placement_sufficient_witness:
  "fillOffer S1_offer [S1_task, S1_task] =
     ([S1_task\<lparr>AssignedHost := Some S1_offer\<rparr>, S1_task\<lparr>AssignedHost := Some S1_offer\<rparr>], [])
   \<and> ports_demand [S1_task\<lparr>AssignedHost := Some S1_offer\<rparr>, S1_task\<lparr>AssignedHost := Some S1_offer\<rparr>]
       \<le> unat (availablePorts (Offer_Resources S1_offer))
   \<and> TrySubtract (FromMesosResources (Offer_Resources S1_offer))
        (scalar_demand [S1_task\<lparr>AssignedHost := Some S1_offer\<rparr>, S1_task\<lparr>AssignedHost := Some S1_offer\<rparr>])
       = Some \<lparr>CPU = 0, Mem = 2048, Disk = 0, GPU = 0\<rparr>
   \<and> well_formed_ports (Offer_Resources S1_offer)
   \<and> port_count (Offer_Resources S1_offer) = 4"
proof -
  have w: "well_formed_ports (Offer_Resources S1_offer)" "port_count (Offer_Resources S1_offer) = 4"
    by (simp_all add: well_formed_ports_def port_count_def range_size_def S1_offer_def)
  note s = fillOffer_placement_sufficient [OF S1_fillOffer]
  then have "ports_demand [S1_task\<lparr>AssignedHost := Some S1_offer\<rparr>, S1_task\<lparr>AssignedHost := Some S1_offer\<rparr>]
       \<le> unat (availablePorts (Offer_Resources S1_offer))"
    by blast
  moreover have "TrySubtract (FromMesosResources (Offer_Resources S1_offer))
        (scalar_demand [S1_task\<lparr>AssignedHost := Some S1_offer\<rparr>, S1_task\<lparr>AssignedHost := Some S1_offer\<rparr>])
       = Some \<lparr>CPU = 0, Mem = 2048, Disk = 0, GPU = 0\<rparr>"
    by (simp add: FromMesosResources_def scalar_total_def scalar_demand_def S1_offer_def
        S1_task_def FromResourceConfig_def TrySubtract_def)
  ultimately show ?thesis using S1_fillOffer w by simp
qed

lemma fits_iff:
  "fits (p, r) a \<longleftrightarrow>
     \<not> (ucast (NumPorts (Task a)) :: uint64) > p
     \<and> TrySubtract r (FromResourceConfig (Task_Resource (Task a))) \<noteq> None"
  by (simp add: fits_def word_le_nat_alt unat_ucast_NumPorts not_less)

lemma TrySubtract_take_from:
  "TrySubtract r (FromResourceConfig (Task_Resource (Task a))) = Some r' \<Longrightarrow>
     take_from (p, r) a = (p - ucast (NumPorts (Task a)), r')"
  by (auto simp: TrySubtract_def take_from_def split: if_splits)

lemma fillOffer_loop_prefix:
  "fillOffer_loop offer p r xs = (placed, rest) \<Longrightarrow>
     placed = map (\<lambda>a. SetHost a offer) (take (length placed) xs)
     \<and> rest = drop (length placed) xs
     \<and> (\<forall>j < length placed. fits (fold (\<lambda>a remaining. take_from remaining a) (take j xs) (p, r)) (xs ! j))
     \<and> (rest \<noteq> [] \<longrightarrow>
          \<not> fits (fold (\<lambda>a remaining. take_from remaining a) (take (length placed) xs) (p, r)) (hd rest))"
proof (induction xs arbitrary: p r placed rest)
  case Nil
  then show ?case by simp
next
  case (Cons a xs)
  let ?used = "ucast (NumPorts (Task a)) :: uint64"
  let ?usage = "FromResourceConfig (Task_Resource (Task a))"
  show ?case
  proof (cases "fits (p, r) a")
    case False
    then have "fillOffer_loop offer p r (a # xs) = ([], a # xs)"
      by (auto simp: fits_iff Let_def split: option.splits)
    with Cons.prems have "placed = []" "rest = a # xs" by simp_all
    with False show ?thesis by simp
  next
    case True
    then obtain r' where sub: "TrySubtract r ?usage = Some r'" and ports: "\<not> ?used > p"
      by (auto simp: fits_iff)
    obtain placed' rest' where rec: "fillOffer_loop offer (p - ?used) r' xs = (placed', rest')"
      by (cases "fillOffer_loop offer (p - ?used) r' xs")
    with sub ports Cons.prems have res: "placed = SetHost a offer # placed'" "rest = rest'"
      by (simp_all add: Let_def)
    note tk = TrySubtract_take_from [OF sub, of p]
    from Cons.IH [OF rec] have ih1: "placed' = map (\<lambda>a. SetHost a offer) (take (length placed') xs)"
      and ih2: "rest' = drop (length placed') xs"
      and ih3: "\<And>j. j < length placed' \<Longrightarrow>
             fits (fold (\<lambda>a remaining. take_from remaining a) (take j xs) (p - ?used, r')) (xs ! j)"
      and ih4: "rest' \<noteq> [] \<Longrightarrow>
             \<not> fits (fold (\<lambda>a remaining. take_from remaining a) (take (length placed') xs) (p - ?used, r')) (hd rest')"
      by blast+
    have c1: "placed = map (\<lambda>a. SetHost a offer) (take (length placed) (a # xs))"
      using ih1 by (simp add: res)
    have c2: "rest = drop (length placed) (a # xs)"
      using ih2 by (simp add: res)
    have c3: "\<forall>j < length placed. fits (fold (\<lambda>a remaining. take_from remaining a) (take j (a # xs)) (p, r)) ((a # xs) ! j)"
    proof (intro allI impI)
      fix j assume j: "j < length placed"
      show "fits (fold (\<lambda>a remaining. take_from remaining a) (take j (a # xs)) (p, r)) ((a # xs) ! j)"
      proof (cases j)
        case 0
        with True show ?thesis by simp
      next
        case (Suc k)
        with j have "k < length placed'" by (simp add: res)
        from ih3 [OF this] show ?thesis by (simp add: Suc tk)
      qed
    qed
    have c4: "rest \<noteq> [] \<longrightarrow>
          \<not> fits (fold (\<lambda>a remaining. take_from remaining a) (take (length placed) (a # xs)) (p, r)) (hd rest)"
      using ih4 by (simp add: res tk)
    from c1 c2 c3 c4 show ?thesis by blast
  qed
qed

text \<open>
  C4.  \<open>fillOffer\<close> binds to the offer a prefix of its input, in the order of the input,
  and returns the rest of the input: every assignment of the prefix fits in what the
  ones before it have left of the ports and scalar resources, the first assignment
  returned does not fit in what the prefix has left, and nothing later is bound.  When
  every assignment fits, the list returned is empty.
\<close>

theorem fillOffer_stops_at_first_unfit:
  assumes "fillOffer offer unassigned = (placed, rest)"
  shows "placed = map (\<lambda>a. SetHost a offer) (take (length placed) unassigned)
     \<and> rest = drop (length placed) unassigned
     \<and> (\<forall>j < length placed. fits (remaining_after offer (take j unassigned)) (unassigned ! j))
     \<and> (rest \<noteq> [] \<longrightarrow>
          \<not> fits (remaining_after offer (take (length placed) unassigned)) (hd rest))
     \<and> ((\<forall>j < length unassigned. fits (remaining_after offer (take j unassigned)) (unassigned ! j))
          \<longrightarrow> rest = [])"
proof -
  from assms have loop: "fillOffer_loop offer (availablePorts (Offer_Resources offer))
       (FromMesosResources (Offer_Resources offer)) unassigned = (placed, rest)"
    by (simp add: fillOffer_def)
  note p = fillOffer_loop_prefix [OF loop, folded remaining_after_def]
  have "rest = []"
    if all: "\<forall>j < length unassigned. fits (remaining_after offer (take j unassigned)) (unassigned ! j)"
  proof (rule ccontr)
    assume ne: "rest \<noteq> []"
    with p have nf: "\<not> fits (remaining_after offer (take (length placed) unassigned)) (hd rest)"
      by blast
    from p have r: "rest = drop (length placed) unassigned" by blast
    with ne have lt: "length placed < length unassigned" by auto
    with r have "hd rest = unassigned ! length placed" by (simp add: hd_drop_conv_nth)
    with nf all lt show False by auto
  qed
  with p show ?thesis by blast
qed


lemma S2_fillOffer: "fillOffer S2_offer [S2_task, S2_task] =
   ([S2_task\<lparr>AssignedHost := Some S2_offer\<rparr>], [S2_task])"
  by (simp add: fillOffer_def availablePorts_def FromMesosResources_def scalar_total_def
      S2_offer_def S2_task_def FromResourceConfig_def TrySubtract_def SetHost_def Let_def)

theorem fillOffer_stops_at_first_unfit_witness:
  "fillOffer S2_offer [S2_task, S2_task] = ([S2_task\<lparr>AssignedHost := Some S2_offer\<rparr>], [S2_task])
   \<and> fits (remaining_after S2_offer []) S2_task
   \<and> \<not> fits (remaining_after S2_offer [S2_task]) S2_task"
proof -
  note s = fillOffer_stops_at_first_unfit [OF S2_fillOffer]
  from s have "\<forall>j < 1. fits (remaining_after S2_offer (take j [S2_task, S2_task])) ([S2_task, S2_task] ! j)"
    by simp
  then have "fits (remaining_after S2_offer []) S2_task" by simp
  moreover from s have "\<not> fits (remaining_after S2_offer [S2_task]) S2_task" by simp
  ultimately show ?thesis using S2_fillOffer by simp
qed

section \<open>Properties of the translation and of the parser\<close>

lemmas mesos_TaskState_defs =
  TaskState_TASK_STAGING_def TaskState_TASK_STARTING_def TaskState_TASK_RUNNING_def
  TaskState_TASK_KILLING_def TaskState_TASK_FINISHED_def TaskState_TASK_FAILED_def
  TaskState_TASK_ERROR_def TaskState_TASK_KILLED_def TaskState_TASK_LOST_def

text \<open>
  C8.  The translation is total and fixed: STAGING and STARTING give LAUNCHED, RUNNING and
  KILLING give RUNNING, FINISHED gives SUCCEEDED, FAILED and ERROR give FAILED, KILLED
  gives KILLED, LOST gives LOST, and every other value of the Mesos state gives
  INITIALIZED.
\<close>

theorem MesosStateToPelotonState_table:
  "MesosStateToPelotonState TaskState_TASK_STAGING = RuntimeInfo_LAUNCHED
   \<and> MesosStateToPelotonState TaskState_TASK_STARTING = RuntimeInfo_LAUNCHED
   \<and> MesosStateToPelotonState TaskState_TASK_RUNNING = RuntimeInfo_RUNNING
   \<and> MesosStateToPelotonState TaskState_TASK_KILLING = RuntimeInfo_RUNNING
   \<and> MesosStateToPelotonState TaskState_TASK_FINISHED = RuntimeInfo_SUCCEEDED
   \<and> MesosStateToPelotonState TaskState_TASK_FAILED = RuntimeInfo_FAILED
   \<and> MesosStateToPelotonState TaskState_TASK_ERROR = RuntimeInfo_FAILED
   \<and> MesosStateToPelotonState TaskState_TASK_KILLED = RuntimeInfo_KILLED
   \<and> MesosStateToPelotonState TaskState_TASK_LOST = RuntimeInfo_LOST
   \<and> (\<forall>mstate.
        mstate \<notin> {TaskState_TASK_STAGING, TaskState_TASK_STARTING, TaskState_TASK_RUNNING,
                   TaskState_TASK_KILLING, TaskState_TASK_FINISHED, TaskState_TASK_FAILED,
                   TaskState_TASK_ERROR, TaskState_TASK_KILLED, TaskState_TASK_LOST}
        \<longrightarrow> MesosStateToPelotonState mstate = RuntimeInfo_INITIALIZED)"
proof -
  have known: "MesosStateToPelotonState TaskState_TASK_STAGING = RuntimeInfo_LAUNCHED"
    "MesosStateToPelotonState TaskState_TASK_STARTING = RuntimeInfo_LAUNCHED"
    "MesosStateToPelotonState TaskState_TASK_RUNNING = RuntimeInfo_RUNNING"
    "MesosStateToPelotonState TaskState_TASK_KILLING = RuntimeInfo_RUNNING"
    "MesosStateToPelotonState TaskState_TASK_FINISHED = RuntimeInfo_SUCCEEDED"
    "MesosStateToPelotonState TaskState_TASK_FAILED = RuntimeInfo_FAILED"
    "MesosStateToPelotonState TaskState_TASK_ERROR = RuntimeInfo_FAILED"
    "MesosStateToPelotonState TaskState_TASK_KILLED = RuntimeInfo_KILLED"
    "MesosStateToPelotonState TaskState_TASK_LOST = RuntimeInfo_LOST"
    by (simp_all add: MesosStateToPelotonState_def mesos_TaskState_defs)
  have other: "MesosStateToPelotonState mstate = RuntimeInfo_INITIALIZED"
    if "mstate \<notin> {TaskState_TASK_STAGING, TaskState_TASK_STARTING, TaskState_TASK_RUNNING,
                   TaskState_TASK_KILLING, TaskState_TASK_FINISHED, TaskState_TASK_FAILED,
                   TaskState_TASK_ERROR, TaskState_TASK_KILLED, TaskState_TASK_LOST}"
    for mstate
    using that by (simp add: MesosStateToPelotonState_def)
  from known other show ?thesis by blast
qed

theorem MesosStateToPelotonState_table_witness:
  "TaskState_TASK_DROPPED \<notin> {TaskState_TASK_STAGING, TaskState_TASK_STARTING,
       TaskState_TASK_RUNNING, TaskState_TASK_KILLING, TaskState_TASK_FINISHED,
       TaskState_TASK_FAILED, TaskState_TASK_ERROR, TaskState_TASK_KILLED, TaskState_TASK_LOST}
   \<and> MesosStateToPelotonState TaskState_TASK_DROPPED = RuntimeInfo_INITIALIZED"
proof -
  have h: "TaskState_TASK_DROPPED \<notin> {TaskState_TASK_STAGING, TaskState_TASK_STARTING,
       TaskState_TASK_RUNNING, TaskState_TASK_KILLING, TaskState_TASK_FINISHED,
       TaskState_TASK_FAILED, TaskState_TASK_ERROR, TaskState_TASK_KILLED, TaskState_TASK_LOST}"
    by (simp add: TaskState_TASK_DROPPED_def mesos_TaskState_defs)
  with MesosStateToPelotonState_table show ?thesis by blast
qed

lemma Split_not_Nil: "Split s sep \<noteq> []"
  by (induction s) (auto split: list.splits)

lemma Split_no_sep: "p \<in> set (Split s sep) \<Longrightarrow> sep \<notin> set p"
proof (induction s arbitrary: p)
  case Nil
  then show ?case by simp
next
  case (Cons c cs)
  then show ?case
    by (auto split: if_splits list.splits)
qed

lemma digit_val_nonneg: "is_digit c \<Longrightarrow> 0 \<le> digit_val c"
  by (simp add: is_digit_def digit_val_def)

lemma digits_value_ge:
  "list_all is_digit cs \<Longrightarrow> 0 \<le> n \<Longrightarrow> n \<le> foldl (\<lambda>n c. n * 10 + digit_val c) n cs"
proof (induction cs arbitrary: n)
  case Nil
  then show ?case by simp
next
  case (Cons c cs)
  then have d: "0 \<le> digit_val c" by (simp add: digit_val_nonneg)
  with Cons.prems have "0 \<le> n * 10 + digit_val c" by simp
  with Cons have "n * 10 + digit_val c \<le> foldl (\<lambda>n c. n * 10 + digit_val c) (n * 10 + digit_val c) cs"
    by simp
  with d Cons.prems show ?case by simp
qed

lemma ParseUint_loop_Inr:
  "0 \<le> n \<Longrightarrow> n \<le> maxUint64 \<Longrightarrow>
     ParseUint_loop n cs = Inr v \<longleftrightarrow>
       list_all is_digit cs \<and> foldl (\<lambda>n c. n * 10 + digit_val c) n cs \<le> maxUint64
       \<and> v = foldl (\<lambda>n c. n * 10 + digit_val c) n cs"
proof (induction cs arbitrary: n)
  case Nil
  then show ?case by auto
next
  case (Cons c cs)
  show ?case
  proof (cases "is_digit c")
    case False
    then show ?thesis by simp
  next
    case True
    then have d: "0 \<le> digit_val c" by (rule digit_val_nonneg)
    let ?n1 = "n * 10 + digit_val c"
    from d Cons.prems have n1: "0 \<le> ?n1" by simp
    show ?thesis
    proof (cases "n \<ge> maxUint64 div 10 + 1 \<or> ?n1 > maxUint64")
      case True
      with d have big: "?n1 > maxUint64" by (auto simp: maxUint64_def)
      have "list_all is_digit cs \<Longrightarrow> ?n1 \<le> foldl (\<lambda>n c. n * 10 + digit_val c) ?n1 cs"
        using n1 by (simp add: digits_value_ge)
      with big have "\<not> (list_all is_digit cs \<and> foldl (\<lambda>n c. n * 10 + digit_val c) ?n1 cs \<le> maxUint64)"
        by auto
      moreover from True \<open>is_digit c\<close> have "ParseUint_loop n (c # cs) = Inl ErrRange"
        by (auto simp: Let_def)
      ultimately show ?thesis by auto
    next
      case False
      then have "ParseUint_loop n (c # cs) = ParseUint_loop ?n1 cs"
        using \<open>is_digit c\<close> by (simp add: Let_def)
      moreover from False have "?n1 \<le> maxUint64" by simp
      ultimately show ?thesis using Cons.IH [OF n1] \<open>is_digit c\<close> by simp
    qed
  qed
qed

lemma ParseUint_Inr:
  "ParseUint s = Inr v \<longleftrightarrow>
     s \<noteq> [] \<and> list_all is_digit s \<and> decimal_value s \<le> maxUint64 \<and> v = decimal_value s"
  by (simp add: ParseUint_def decimal_value_def ParseUint_loop_Inr maxUint64_def)


lemma ParseInt_Cons:
  "ParseInt (c # cs) =
     (if ParseUint (unsigned_part (c # cs)) = Inl ErrSyntax then Inl ErrSyntax
      else
        let un = (case ParseUint (unsigned_part (c # cs)) of Inl err \<Rightarrow> maxUint64 | Inr n \<Rightarrow> n)
        in if \<not> negative (c # cs) \<and> un \<ge> 2 ^ 63 then Inl ErrRange
           else if negative (c # cs) \<and> un > 2 ^ 63 then Inl ErrRange
           else Inr (if negative (c # cs) then - un else un))"
  by (simp add: ParseInt_def unsigned_part_def negative_def Let_def)

lemma ParseInt_Inr:
  "ParseInt s = Inr v \<longleftrightarrow>
     decimal_integer s
     \<and> (if negative s
        then decimal_value (unsigned_part s) \<le> 2 ^ 63 \<and> v = - decimal_value (unsigned_part s)
        else decimal_value (unsigned_part s) < 2 ^ 63 \<and> v = decimal_value (unsigned_part s))"
proof (cases s)
  case Nil
  then show ?thesis by (simp add: ParseInt_def decimal_integer_def unsigned_part_def)
next
  case (Cons c cs)
  let ?u = "unsigned_part s"
  show ?thesis
  proof (cases "ParseUint ?u")
    case (Inl e)
    then have no: "\<And>w. ParseUint ?u \<noteq> Inr w" by simp
    have "ParseInt s = Inl ErrSyntax \<or> ParseInt s = Inl ErrRange"
      using Inl unfolding Cons ParseInt_Cons by (cases e) (simp_all add: Let_def maxUint64_def)
    then have "ParseInt s \<noteq> Inr v" by auto
    moreover have "\<not> (decimal_integer s \<and> decimal_value ?u \<le> 2 ^ 63)"
    proof
      assume a: "decimal_integer s \<and> decimal_value ?u \<le> 2 ^ 63"
      then have "?u \<noteq> [] \<and> list_all is_digit ?u \<and> decimal_value ?u \<le> maxUint64"
        unfolding decimal_integer_def by (simp add: maxUint64_def)
      then have "ParseUint ?u = Inr (decimal_value ?u)" by (simp add: ParseUint_Inr)
      with no show False by blast
    qed
    ultimately show ?thesis by (auto split: if_splits)
  next
    case (Inr un)
    then have p: "?u \<noteq> []" "list_all is_digit ?u" "decimal_value ?u \<le> maxUint64"
      "un = decimal_value ?u"
      by (simp_all add: ParseUint_Inr)
    then have d: "decimal_integer s" unfolding decimal_integer_def by simp
    have "ParseInt s =
        (if \<not> negative s \<and> un \<ge> 2 ^ 63 then Inl ErrRange
         else if negative s \<and> un > 2 ^ 63 then Inl ErrRange
         else Inr (if negative s then - un else un))"
      using Inr unfolding Cons ParseInt_Cons by (simp add: Let_def)
    with d p(4) show ?thesis by auto
  qed
qed


lemma segment_not_negative: "p \<in> set (Split s CHR ''-'') \<Longrightarrow> \<not> negative p"
  using Split_no_sep [of p s "CHR ''-''"] by (cases p) (auto simp: negative_def)

lemma second_segment: "\<not> length (Split s sep) < 2 \<Longrightarrow> Split s sep ! 1 \<in> set (Split s sep)"
  by simp

text \<open>
  C9, as the source has it.  The parser returns an error exactly when splitting at
  \<open>-\<close> gives fewer than two segments or the second segment is not a decimal integer
  that fits Go's \<open>int\<close>: one or more decimal digits after at most a \<open>+\<close> sign, of
  value below \<open>2 ^ 63\<close>.  When it succeeds it returns the first segment, \<open>-\<close> and the
  decimal digits of that value.
\<close>

theorem ParseTaskIDFromMesosTaskID_error_iff:
  "(isl (ParseTaskIDFromMesosTaskID s) \<longleftrightarrow>
      length (Split s CHR ''-'') < 2
      \<or> \<not> (decimal_integer (Split s CHR ''-'' ! 1)
            \<and> decimal_value (unsigned_part (Split s CHR ''-'' ! 1)) < 2 ^ 63))
   \<and> (\<not> isl (ParseTaskIDFromMesosTaskID s) \<longrightarrow>
        ParseTaskIDFromMesosTaskID s =
          Inr (Split s CHR ''-'' ! 0 @ ''-'' @
               show_nat (nat (decimal_value (unsigned_part (Split s CHR ''-'' ! 1))))))"
proof (cases "length (Split s CHR ''-'') < 2")
  case True
  then show ?thesis by (simp add: ParseTaskIDFromMesosTaskID_def Let_def)
next
  case False
  let ?seg = "Split s CHR ''-'' ! 1"
  let ?dv = "decimal_value (unsigned_part ?seg)"
  from False have "?seg \<in> set (Split s CHR ''-'')" by (rule second_segment)
  then have pos: "\<not> negative ?seg" by (rule segment_not_negative)
  show ?thesis
  proof (cases "Atoi ?seg")
    case (Inl e)
    then have "ParseInt ?seg \<noteq> Inr ?dv" by (simp add: Atoi_def)
    with pos have "\<not> (decimal_integer ?seg \<and> ?dv < 2 ^ 63)"
      by (simp add: ParseInt_Inr)
    with False Inl show ?thesis by (simp add: ParseTaskIDFromMesosTaskID_def Let_def)
  next
    case (Inr v)
    then have "ParseInt ?seg = Inr v" by (simp add: Atoi_def)
    with pos have v: "decimal_integer ?seg" "?dv < 2 ^ 63" "v = ?dv"
      by (simp_all add: ParseInt_Inr)
    have "0 \<le> ?dv"
      using v(1) digits_value_ge [of "unsigned_part ?seg" 0]
      by (simp add: decimal_integer_def decimal_value_def)
    with v have "show_int v = show_nat (nat ?dv)" by (simp add: show_int_def)
    with False Inr v show ?thesis
      by (simp add: ParseTaskIDFromMesosTaskID_def Let_def)
  qed
qed

theorem ParseTaskIDFromMesosTaskID_error_iff_witness:
  "\<not> isl (ParseTaskIDFromMesosTaskID ''job-007-abc'')
   \<and> ParseTaskIDFromMesosTaskID ''job-007-abc'' = Inr ''job-7''
   \<and> decimal_integer ''007'' \<and> decimal_value ''007'' = 7"
proof -
  have n: "\<not> isl (ParseTaskIDFromMesosTaskID ''job-007-abc'')"
    by (simp add: ParseTaskIDFromMesosTaskID_def Atoi_def ParseInt_def ParseUint_def
        is_digit_def digit_val_def maxUint64_def show_int_def Let_def)
  have d: "decimal_integer ''007''" "decimal_value ''007'' = 7"
    by (simp_all add: decimal_integer_def unsigned_part_def decimal_value_def is_digit_def
        digit_val_def)
  from ParseTaskIDFromMesosTaskID_error_iff [of "''job-007-abc''"] n
  have "ParseTaskIDFromMesosTaskID ''job-007-abc'' =
          Inr (Split ''job-007-abc'' CHR ''-'' ! 0 @ ''-'' @
               show_nat (nat (decimal_value (unsigned_part (Split ''job-007-abc'' CHR ''-'' ! 1)))))"
    by blast
  then have "ParseTaskIDFromMesosTaskID ''job-007-abc'' = Inr ''job-7''"
    by (simp add: unsigned_part_def decimal_value_def digit_val_def show_nat.simps)
  with n d show ?thesis by simp
qed

text \<open>
  C9, as the claim has it, fails on a second segment that is a decimal integer too large
  for \<open>int\<close>: \<open>job-9223372036854775808\<close> has two segments, the second one is a decimal
  integer, and the parser returns an error.
\<close>

theorem ParseTaskIDFromMesosTaskID_range_counterexample:
  "\<not> (isl (ParseTaskIDFromMesosTaskID ''job-9223372036854775808'') \<longleftrightarrow>
        length (Split ''job-9223372036854775808'' CHR ''-'') < 2
        \<or> \<not> decimal_integer (Split ''job-9223372036854775808'' CHR ''-'' ! 1))"
proof -
  have "isl (ParseTaskIDFromMesosTaskID ''job-9223372036854775808'')"
    by (simp add: ParseTaskIDFromMesosTaskID_def Atoi_def ParseInt_def ParseUint_def
        is_digit_def digit_val_def maxUint64_def Let_def)
  moreover have "\<not> length (Split ''job-9223372036854775808'' CHR ''-'') < 2" by simp
  moreover have "decimal_integer (Split ''job-9223372036854775808'' CHR ''-'' ! 1)"
    by (simp add: decimal_integer_def unsigned_part_def is_digit_def)
  ultimately show ?thesis by blast
qed

section \<open>Properties of the recovery\<close>

lemma createTaskForJob_goal:
  "createTaskForJob uuid st jobID i jobConfig = Inr (st', task) \<Longrightarrow>
     State (Runtime task) = TaskState_INITIALIZED \<and> GoalState (Runtime task) = TaskState_SUCCEEDED
     \<and> rows st' i = Some task"
  by (auto simp: createTaskForJob_def CreateTask_def Let_def split: if_splits)

text \<open>
  What the loop over the instances does when it ends without error: the rows already in
  the store stay as they are; an instance stored in state INITIALIZED is requeued and
  not created again; an instance without a row is created in state INITIALIZED, with
  the goal state SUCCEEDED whatever the type of the job, and requeued.
\<close>

lemma createTaskForJob_store:
  "createTaskForJob uuid st jobID i jobConfig = Inr (st', task) \<Longrightarrow>
     st' = st\<lparr>rows := (rows st)(i \<mapsto> task)\<rparr>"
  by (auto simp: createTaskForJob_def CreateTask_def Let_def split: if_splits)

lemma recoverInstances_frame:
  "recoverInstances uuid jobID jobConfig is st q = (st', Inr q') \<Longrightarrow>
     read_fails st' = read_fails st \<and> create_fails st' = create_fails st
     \<and> set q \<subseteq> set q'
     \<and> (\<forall>k t. rows st k = Some t \<longrightarrow> rows st' k = Some t)"
proof (induction "is" arbitrary: st q)
  case Nil
  then show ?case by simp
next
  case (Cons i "is")
  show ?case
  proof (cases "GetTaskForJob st (of_nat i)")
    case (Inr ts)
    with Cons.prems have "recoverInstances uuid jobID jobConfig is st
        (q @ filter (\<lambda>taskInfo. State (Runtime taskInfo) = TaskState_INITIALIZED) ts) = (st', Inr q')"
      by simp
    from Cons.IH [OF this] show ?thesis by auto
  next
    case (Inl err)
    show ?thesis
    proof (cases "err = TaskNotFoundError")
      case False
      with Inl Cons.prems have "recoverInstances uuid jobID jobConfig is st q = (st', Inr q')"
        by simp
      from Cons.IH [OF this] show ?thesis .
    next
      case True
      with Inl have none: "rows st (of_nat i) = None"
        by (auto simp: GetTaskForJob_def split: if_splits option.splits)
      from True Inl Cons.prems obtain st1 task where
        c: "createTaskForJob uuid st jobID (of_nat i) jobConfig = Inr (st1, task)"
        and r: "recoverInstances uuid jobID jobConfig is st1 (q @ [task]) = (st', Inr q')"
        by (auto split: sum.splits)
      from createTaskForJob_store [OF c] have st1: "st1 = st\<lparr>rows := (rows st)(of_nat i \<mapsto> task)\<rparr>" .
      from Cons.IH [OF r] have ih: "read_fails st' = read_fails st1" "create_fails st' = create_fails st1"
        "set (q @ [task]) \<subseteq> set q'" "\<And>k t. rows st1 k = Some t \<Longrightarrow> rows st' k = Some t"
        by blast+
      have "rows st' k = Some t" if "rows st k = Some t" for k t
      proof -
        from that none have "k \<noteq> of_nat i" by auto
        with that have "rows st1 k = Some t" by (simp add: st1)
        then show ?thesis by (rule ih(4))
      qed
      with ih(1-3) show ?thesis by (auto simp: st1)
    qed
  qed
qed

lemma recoverInstances_requeues:
  "recoverInstances uuid jobID jobConfig is st q = (st', Inr q') \<Longrightarrow>
   i \<in> set is \<Longrightarrow> \<not> read_fails st (of_nat i) \<Longrightarrow>
   rows st (of_nat i) = Some t \<Longrightarrow> State (Runtime t) = TaskState_INITIALIZED \<Longrightarrow>
     t \<in> set q' \<and> rows st' (of_nat i) = Some t"
proof (induction "is" arbitrary: st q)
  case Nil
  then show ?case by simp
next
  case (Cons j "is")
  from recoverInstances_frame [OF Cons.prems(1)] Cons.prems(4)
  have kept: "rows st' (of_nat i) = Some t" by blast
  show ?case
  proof (cases "j = i")
    case True
    with Cons.prems have g: "GetTaskForJob st (of_nat j) = Inr [t]"
      by (simp add: GetTaskForJob_def)
    with Cons.prems(1,5) have "recoverInstances uuid jobID jobConfig is st (q @ [t]) = (st', Inr q')"
      by simp
    from recoverInstances_frame [OF this] have "t \<in> set q'" by auto
    with kept show ?thesis by simp
  next
    case False
    with Cons.prems(2) have i: "i \<in> set is" by simp
    show ?thesis
    proof (cases "GetTaskForJob st (of_nat j)")
      case (Inr ts)
      with Cons.prems(1) have "recoverInstances uuid jobID jobConfig is st
          (q @ filter (\<lambda>taskInfo. State (Runtime taskInfo) = TaskState_INITIALIZED) ts) = (st', Inr q')"
        by simp
      from Cons.IH [OF this i Cons.prems(3,4,5)] show ?thesis .
    next
      case (Inl err)
      show ?thesis
      proof (cases "err = TaskNotFoundError")
        case False
        with Inl Cons.prems(1) have "recoverInstances uuid jobID jobConfig is st q = (st', Inr q')"
          by simp
        from Cons.IH [OF this i Cons.prems(3,4,5)] show ?thesis .
      next
        case True
        with Inl have none: "rows st (of_nat j) = None"
          by (auto simp: GetTaskForJob_def split: if_splits option.splits)
        from True Inl Cons.prems(1) obtain st1 task where
          c: "createTaskForJob uuid st jobID (of_nat j) jobConfig = Inr (st1, task)"
          and r: "recoverInstances uuid jobID jobConfig is st1 (q @ [task]) = (st', Inr q')"
          by (auto split: sum.splits)
        from createTaskForJob_store [OF c] have st1: "st1 = st\<lparr>rows := (rows st)(of_nat j \<mapsto> task)\<rparr>" .
        from none Cons.prems(4) have "(of_nat i :: uint32) \<noteq> of_nat j" by auto
        with Cons.prems(3,4) have "\<not> read_fails st1 (of_nat i)" "rows st1 (of_nat i) = Some t"
          by (simp_all add: st1)
        from Cons.IH [OF r i this Cons.prems(5)] show ?thesis .
      qed
    qed
  qed
qed

lemma recoverInstances_creates:
  "recoverInstances uuid jobID jobConfig is st q = (st', Inr q') \<Longrightarrow>
   i \<in> set is \<Longrightarrow> \<not> read_fails st (of_nat i) \<Longrightarrow> rows st (of_nat i) = None \<Longrightarrow>
     \<exists>t. rows st' (of_nat i) = Some t \<and> t \<in> set q'
       \<and> State (Runtime t) = TaskState_INITIALIZED \<and> GoalState (Runtime t) = TaskState_SUCCEEDED"
proof (induction "is" arbitrary: st q)
  case Nil
  then show ?case by simp
next
  case (Cons j "is")
  show ?case
  proof (cases "(of_nat j :: uint32) = of_nat i")
    case True
    with Cons.prems have g: "GetTaskForJob st (of_nat j) = Inl TaskNotFoundError"
      by (simp add: GetTaskForJob_def)
    with Cons.prems(1) obtain st1 task where
      c: "createTaskForJob uuid st jobID (of_nat j) jobConfig = Inr (st1, task)"
      and r: "recoverInstances uuid jobID jobConfig is st1 (q @ [task]) = (st', Inr q')"
      by (auto split: sum.splits)
    from createTaskForJob_goal [OF c] True
    have t: "State (Runtime task) = TaskState_INITIALIZED" "GoalState (Runtime task) = TaskState_SUCCEEDED"
      "rows st1 (of_nat i) = Some task"
      by simp_all
    from recoverInstances_frame [OF r] t(3) have "rows st' (of_nat i) = Some task" "task \<in> set q'"
      by auto
    with t show ?thesis by blast
  next
    case False
    then have "j \<noteq> i" by auto
    with Cons.prems(2) have i: "i \<in> set is" by simp
    show ?thesis
    proof (cases "GetTaskForJob st (of_nat j)")
      case (Inr ts)
      with Cons.prems(1) have "recoverInstances uuid jobID jobConfig is st
          (q @ filter (\<lambda>taskInfo. State (Runtime taskInfo) = TaskState_INITIALIZED) ts) = (st', Inr q')"
        by simp
      from Cons.IH [OF this i Cons.prems(3,4)] show ?thesis .
    next
      case (Inl err)
      show ?thesis
      proof (cases "err = TaskNotFoundError")
        case False
        with Inl Cons.prems(1) have "recoverInstances uuid jobID jobConfig is st q = (st', Inr q')"
          by simp
        from Cons.IH [OF this i Cons.prems(3,4)] show ?thesis .
      next
        case True
        from True Inl Cons.prems(1) obtain st1 task where
          c: "createTaskForJob uuid st jobID (of_nat j) jobConfig = Inr (st1, task)"
          and r: "recoverInstances uuid jobID jobConfig is st1 (q @ [task]) = (st', Inr q')"
          by (auto split: sum.splits)
        from createTaskForJob_store [OF c] have st1: "st1 = st\<lparr>rows := (rows st)(of_nat j \<mapsto> task)\<rparr>" .
        with False Cons.prems(3,4) have "\<not> read_fails st1 (of_nat i)" "rows st1 (of_nat i) = None"
          by simp_all
        from Cons.IH [OF r i this] show ?thesis .
      qed
    qed
  qed
qed

lemma CreateInitializingTask_goal:
  "GoalState (CreateInitializingTask jobID i jobConfig)
     = GetDefaultTaskGoalState (JobConfig_Type jobConfig)"
  by (simp add: CreateInitializingTask_def)

lemma upt_0_1: "[0 ..< 1] = [0]"
  by (simp add: upt_rec)

lemma upt_0_3: "[0 ..< 3] = [0, 1, 2]"
  by (simp add: upt_rec)

text \<open>
  Scenario S6: of three instances, instance 0 is stored in state INITIALIZED.  The
  recovery twenty minutes after the creation of the job keeps its row, creates the
  instances 1 and 2 in state INITIALIZED, enqueues all three and makes the job PENDING.
\<close>

lemma S6_recovery:
  "recoverJob (\<lambda>i. ''u'') (\<lambda>s. Inr 0) (20 * 60 * 1000000000) ''J'' S6_world = (w, err) \<Longrightarrow>
     err = None \<and> stored_job_state w = JobState_PENDING
     \<and> map InstanceId (resmgr_queue w) = [0, 1, 2]
     \<and> rows (taskStore w) 0 = Some S6_task0
     \<and> map_option (\<lambda>t. State (Runtime t)) (rows (taskStore w) 1) = Some TaskState_INITIALIZED
     \<and> map_option (\<lambda>t. State (Runtime t)) (rows (taskStore w) 2) = Some TaskState_INITIALIZED"
  by (auto simp add: recoverJob_def S6_world_def recoveryInterval_def batchRows_def upt_0_3
      GetTaskForJob_def createTaskForJob_def CreateTask_def Let_def S6_task0_def show_nat.simps)

text \<open>
  C7.  The source at a job of type SERVICE with one instance and no task in the store:
  the recovery succeeds and creates instance 0 in state INITIALIZED with the goal state
  SUCCEEDED, while the default goal state of a SERVICE job is RUNNING.
\<close>

theorem recoverJob_service_goal_state:
  "(case recoverJob (\<lambda>i. ''u'') (\<lambda>s. Inr 0) (20 * 60 * 1000000000) ''J'' service_world of
      (w, err) \<Rightarrow>
        err = None
        \<and> map_option (\<lambda>t. (State (Runtime t), GoalState (Runtime t))) (rows (taskStore w) 0)
            = Some (TaskState_INITIALIZED, TaskState_SUCCEEDED))
   \<and> GetDefaultTaskGoalState JobType_SERVICE = TaskState_RUNNING"
  by (simp add: recoverJob_def service_world_def recoveryInterval_def batchRows_def upt_0_1
      GetTaskForJob_def createTaskForJob_def CreateTask_def Let_def GetDefaultTaskGoalState_def
      show_nat.simps)

section \<open>Properties of the offer pool\<close>

text \<open>
  C5.  Without force, \<open>RemoveExpiredOffers\<close> returns the identifiers of exactly the
  offers of the pool whose age, the time now less the time of arrival, exceeds the hold
  time, and leaves in the pool exactly the others; with force it returns every offer of
  the pool and leaves the pool empty.
\<close>

theorem RemoveExpiredOffers_exact:
  assumes "RemoveExpiredOffers pool now force = (removed, pool')"
  shows "(\<not> force \<longrightarrow>
            set removed = {offerID. \<exists>offer. (offerID, offer) \<in> set (offers pool)
                                    \<and> now - Timestamp offer > offerHoldTime pool}
            \<and> set (offers pool') = {(offerID, offer). (offerID, offer) \<in> set (offers pool)
                                    \<and> now - Timestamp offer \<le> offerHoldTime pool})
       \<and> (force \<longrightarrow> removed = map fst (offers pool) \<and> offers pool' = [])
       \<and> offerHoldTime pool' = offerHoldTime pool"
proof -
  from assms have r: "removed = map fst (filter (\<lambda>(offerID, offer). offer_expired pool now force offer) (offers pool))"
    and p: "pool' = pool\<lparr>offers := filter (\<lambda>(offerID, offer). \<not> offer_expired pool now force offer) (offers pool)\<rparr>"
    by (simp_all add: RemoveExpiredOffers_def)
  have a: "set removed = {offerID. \<exists>offer. (offerID, offer) \<in> set (offers pool)
                                    \<and> now - Timestamp offer > offerHoldTime pool}" if "\<not> force"
    using that unfolding r by (force simp: offer_expired_def)
  have b: "set (offers pool') = {(offerID, offer). (offerID, offer) \<in> set (offers pool)
                                    \<and> now - Timestamp offer \<le> offerHoldTime pool}" if "\<not> force"
    using that unfolding p by (auto simp: offer_expired_def)
  have c: "removed = map fst (offers pool) \<and> offers pool' = []" if force
    using that unfolding r p by (simp add: offer_expired_def split_def)
  have d: "offerHoldTime pool' = offerHoldTime pool" unfolding p by simp
  from a b c d show ?thesis by blast
qed

lemma S3_not_forced:
  "RemoveExpiredOffers S3_pool 600000000000 False =
     ([''B''], S3_pool\<lparr>offers := [(''A'', \<lparr>Offer_Hostname = ''h1'', Timestamp = 600000000000\<rparr>)]\<rparr>)"
  by (simp add: RemoveExpiredOffers_def S3_pool_def offer_expired_def)

lemma S3_forced:
  "RemoveExpiredOffers S3_pool 600000000000 True = ([''A'', ''B''], S3_pool\<lparr>offers := []\<rparr>)"
  by (simp add: RemoveExpiredOffers_def S3_pool_def offer_expired_def)

theorem RemoveExpiredOffers_exact_witness:
  "RemoveExpiredOffers S3_pool 600000000000 False =
     ([''B''], S3_pool\<lparr>offers := [(''A'', \<lparr>Offer_Hostname = ''h1'', Timestamp = 600000000000\<rparr>)]\<rparr>)
   \<and> set [''B''] = {offerID. \<exists>offer. (offerID, offer) \<in> set (offers S3_pool)
                                    \<and> 600000000000 - Timestamp offer > offerHoldTime S3_pool}
   \<and> RemoveExpiredOffers S3_pool 600000000000 True = ([''A'', ''B''], S3_pool\<lparr>offers := []\<rparr>)
   \<and> [''A'', ''B''] = map fst (offers S3_pool)"
proof -
  from RemoveExpiredOffers_exact [OF S3_not_forced]
  have "set [''B''] = {offerID. \<exists>offer. (offerID, offer) \<in> set (offers S3_pool)
                                    \<and> 600000000000 - Timestamp offer > offerHoldTime S3_pool}"
    by blast
  moreover from RemoveExpiredOffers_exact [OF S3_forced]
  have "[''A'', ''B''] = map fst (offers S3_pool)" by blast
  ultimately show ?thesis using S3_not_forced S3_forced by simp
qed

section \<open>Properties of the failure policy of an update run\<close>

lemma UpdateRun_continues:
  assumes "MaxFailureInstances (update_config u) = 0
     \<or> length (instances_failed u @ filter (\<lambda>i. status i = Instance_Failed) (instances_current u))
         < unat (MaxFailureInstances (update_config u))"
  shows "UpdateRun status u =
     Run_Continues
       (instances_done u @ filter (\<lambda>i. status i = Instance_Done) (instances_current u))
       (instances_failed u @ filter (\<lambda>i. status i = Instance_Failed) (instances_current u))
       (filter (\<lambda>i. status i = Instance_InProgress) (instances_current u))"
  using assms by (auto simp: UpdateRun_def Let_def)

text \<open>
  C6, with the limit set.  In a run where \<open>max_failure_instances\<close> is not 0 and the
  failed instances, those of earlier runs and those found failed in this one, have
  reached it: when \<open>rollback_on_failure\<close> is set and the state is ROLLING_FORWARD, the
  current and the target version are swapped and the state becomes ROLLING_BACKWARD;
  otherwise the progress is written with the state FAILED and the update is enqueued.
\<close>

theorem UpdateRun_failure_policy:
  assumes "MaxFailureInstances (update_config u) \<noteq> 0"
    and "unat (MaxFailureInstances (update_config u))
             \<le> length (instances_failed u @ filter (\<lambda>i. status i = Instance_Failed) (instances_current u))"
  shows "\<exists>u' effects. UpdateRun status u = Run_FailurePolicy u' effects
     \<and> (RollbackOnFailure (update_config u) \<and> update_state u = State_ROLLING_FORWARD \<longrightarrow>
          update_state u' = State_ROLLING_BACKWARD
          \<and> current_version u' = target_version u \<and> target_version u' = current_version u
          \<and> effects = [EnqueueUpdate])
     \<and> (\<not> (RollbackOnFailure (update_config u) \<and> update_state u = State_ROLLING_FORWARD) \<longrightarrow>
          update_state u' = State_FAILED
          \<and> current_version u' = current_version u \<and> target_version u' = target_version u
          \<and> effects =
              [WriteProgress State_FAILED
                 (instances_done u @ filter (\<lambda>i. status i = Instance_Done) (instances_current u))
                 (instances_failed u @ filter (\<lambda>i. status i = Instance_Failed) (instances_current u))
                 (filter (\<lambda>i. status i = Instance_InProgress) (instances_current u)),
               EnqueueUpdate])"
  using assms by (simp add: UpdateRun_def processFailedUpdate_def Let_def)

lemma S4_limit_set: "MaxFailureInstances (update_config (S4_update rollback st)) \<noteq> 0"
  by (simp add: S4_update_def)

lemma S4_failed_count:
  "unat (MaxFailureInstances (update_config (S4_update rollback st)))
     \<le> length (instances_failed (S4_update rollback st)
          @ filter (\<lambda>i. S4_status i = Instance_Failed) (instances_current (S4_update rollback st)))"
  by (simp add: S4_update_def S4_status_def)

text \<open>
  The expectations of the tests: the progress written with the state FAILED after three
  failures, rolling forward without rollback or rolling backward; the rollback; and the
  run that continues, with three failures of four allowed and with the limit unset.
\<close>

lemma TestRunningUpdateFailed:
  "UpdateRun S4_status (S4_update False State_ROLLING_FORWARD) =
     Run_FailurePolicy
       ((S4_update False State_FAILED)\<lparr>instances_done := [3, 4, 5, 6],
           instances_failed := [0, 1, 2], instances_current := []\<rparr>)
       [WriteProgress State_FAILED [3, 4, 5, 6] [0, 1, 2] [], EnqueueUpdate]"
  by (simp add: UpdateRun_def processFailedUpdate_def S4_update_def S4_status_def Let_def)

lemma TestUpdateRollingBackFailed:
  "UpdateRun S4_status (S4_update True State_ROLLING_BACKWARD) =
     Run_FailurePolicy
       ((S4_update True State_FAILED)\<lparr>instances_done := [3, 4, 5, 6],
           instances_failed := [0, 1, 2], instances_current := []\<rparr>)
       [WriteProgress State_FAILED [3, 4, 5, 6] [0, 1, 2] [], EnqueueUpdate]"
  by (simp add: UpdateRun_def processFailedUpdate_def S4_update_def S4_status_def Let_def)

lemma TestRunningUpdateRolledBack:
  "UpdateRun S4_status (S4_update True State_ROLLING_FORWARD) =
     Run_FailurePolicy
       ((S4_update True State_ROLLING_BACKWARD)\<lparr>current_version := 4, target_version := 3\<rparr>)
       [EnqueueUpdate]"
  by (simp add: UpdateRun_def processFailedUpdate_def S4_update_def S4_status_def Let_def)

lemma TestRunningUpdatePartialFailure:
  "UpdateRun S4_status
     ((S4_update False State_ROLLING_FORWARD)
        \<lparr>update_config := (update_config (S4_update False State_ROLLING_FORWARD))
           \<lparr>MaxFailureInstances := 4\<rparr>\<rparr>) =
     Run_Continues [3, 4, 5, 6] [0, 1, 2] []"
  by (simp add: UpdateRun_def S4_update_def S4_status_def Let_def)

lemma TestRunningUpdate:
  "UpdateRun TestRunningUpdate_status TestRunningUpdate_update = Run_Continues [3, 6] [] [2, 4, 5]"
  by (simp add: UpdateRun_def TestRunningUpdate_update_def TestRunningUpdate_status_def Let_def)

lemma TestCompletedUpdate:
  "UpdateRun (\<lambda>i. Instance_Done)
     (TestRunningUpdate_update\<lparr>current_version := 2, target_version := 3,
        instances_total := [2, 3, 4, 5], instances_current := [2, 3, 4, 5]\<rparr>) =
     Run_Continues [2, 3, 4, 5] [] []"
  by (simp add: UpdateRun_def TestRunningUpdate_update_def Let_def)

theorem UpdateRun_failure_policy_witness:
  "UpdateRun S4_status (S4_update True State_ROLLING_FORWARD) =
     Run_FailurePolicy
       ((S4_update True State_ROLLING_BACKWARD)\<lparr>current_version := 4, target_version := 3\<rparr>)
       [EnqueueUpdate]
   \<and> RollbackOnFailure (update_config (S4_update True State_ROLLING_FORWARD))
   \<and> update_state (S4_update True State_ROLLING_FORWARD) = State_ROLLING_FORWARD
   \<and> MaxFailureInstances (update_config (S4_update True State_ROLLING_FORWARD)) \<noteq> 0
   \<and> unat (MaxFailureInstances (update_config (S4_update True State_ROLLING_FORWARD)))
       \<le> length (instances_failed (S4_update True State_ROLLING_FORWARD)
            @ filter (\<lambda>i. S4_status i = Instance_Failed)
                (instances_current (S4_update True State_ROLLING_FORWARD)))"
proof -
  from UpdateRun_failure_policy [OF S4_limit_set S4_failed_count, of True State_ROLLING_FORWARD]
  obtain u' effects where
    "UpdateRun S4_status (S4_update True State_ROLLING_FORWARD) = Run_FailurePolicy u' effects"
    by blast
  then show ?thesis
    using S4_failed_count [of True State_ROLLING_FORWARD] S4_limit_set [of True State_ROLLING_FORWARD]
    by (simp add: UpdateRun_def processFailedUpdate_def S4_update_def S4_status_def Let_def)
qed

text \<open>
  C6, as the claim has it, fails where the limit is unset.  In the run of
  \<open>TestRunningUpdate\<close> no instance has failed and \<open>max_failure_instances\<close> is 0, so the
  number of failed instances has reached it; rollback is not set, and yet no progress is
  written with the state FAILED: the run continues.
\<close>

theorem UpdateRun_unset_limit_counterexample:
  "\<not> (unat (MaxFailureInstances (update_config TestRunningUpdate_update))
         \<le> length (instances_failed TestRunningUpdate_update
              @ filter (\<lambda>i. TestRunningUpdate_status i = Instance_Failed)
                  (instances_current TestRunningUpdate_update))
       \<longrightarrow> (\<exists>u' effects.
              UpdateRun TestRunningUpdate_status TestRunningUpdate_update
                = Run_FailurePolicy u' effects))"
proof -
  have "unat (MaxFailureInstances (update_config TestRunningUpdate_update))
         \<le> length (instances_failed TestRunningUpdate_update
              @ filter (\<lambda>i. TestRunningUpdate_status i = Instance_Failed)
                  (instances_current TestRunningUpdate_update))"
    by (simp add: TestRunningUpdate_update_def)
  moreover have "UpdateRun TestRunningUpdate_status TestRunningUpdate_update
      = Run_Continues [3, 6] [] [2, 4, 5]"
    by (simp add: UpdateRun_def TestRunningUpdate_update_def TestRunningUpdate_status_def Let_def)
  ultimately show ?thesis by simp
qed

end
